theory Spec2Isabelle
  imports Main "HOL-Library.AList"
begin

section \<open>JavaScript values\<close>

text \<open>
  The services and middleware of the repository exchange plain JavaScript values: request
  parts, envelopes, custom claims. They are modelled by one datatype. Numbers are the
  integers the code computes with (millisecond counts, lengths) plus \<open>NaN\<close>; an object is
  the list of its own properties in insertion order, with unique keys. Characters are code
  units below 256.
\<close>

datatype jsval =
    JUndefined
  | JNull
  | JBool bool
  | JNum int
  | JNaN
  | JStr string
  | JArr "jsval list"
  | JObj "(string \<times> jsval) list"

type_synonym props = "(string \<times> jsval) list"

text \<open>JavaScript truthiness, as used by \<open>!x\<close>, \<open>x || y\<close>, \<open>x && y\<close> and \<open>x ? a : b\<close>.\<close>

fun truthy :: "jsval \<Rightarrow> bool" where
  "truthy JUndefined = False"
| "truthy JNull = False"
| "truthy (JBool b) = b"
| "truthy (JNum n) = (n \<noteq> 0)"
| "truthy JNaN = False"
| "truthy (JStr s) = (s \<noteq> [])"
| "truthy (JArr xs) = True"
| "truthy (JObj ps) = True"

text \<open>\<open>a || b\<close>\<close>

definition jsor :: "jsval \<Rightarrow> jsval \<Rightarrow> jsval" where
  "jsor a b = (if truthy a then a else b)"

text \<open>
  Property read \<open>o.k\<close> on a value that is neither \<open>null\<close> nor \<open>undefined\<close> (on those the
  read raises a TypeError, which the callers below model where it can happen). Only the own
  properties of objects are modelled; a primitive or an array has none of the names read here.
\<close>

fun getProp :: "jsval \<Rightarrow> string \<Rightarrow> jsval" where
  "getProp (JObj ps) k = (case map_of ps k of Some v \<Rightarrow> v | None \<Rightarrow> JUndefined)"
| "getProp v k = JUndefined"

definition hasProp :: "jsval \<Rightarrow> string \<Rightarrow> bool" where
  "hasProp v k = (case v of JObj ps \<Rightarrow> k \<in> fst ` set ps | _ \<Rightarrow> False)"

definition nullish :: "jsval \<Rightarrow> bool" where
  "nullish v = (v = JUndefined \<or> v = JNull)"

text \<open>Optional chaining \<open>o?.k\<close>.\<close>

definition getOpt :: "jsval \<Rightarrow> string \<Rightarrow> jsval" where
  "getOpt v k = (if nullish v then JUndefined else getProp v k)"

text \<open>
  Object spread \<open>{ ...base, ...extra }\<close> of two objects: the properties of \<open>extra\<close> are
  assigned one by one onto \<open>base\<close>, replacing the value of a key already there and appending
  a new key.
\<close>

definition spread :: "props \<Rightarrow> props \<Rightarrow> props" where
  "spread base extra = AList.merge base extra"

definition isObj :: "jsval \<Rightarrow> bool" where
  "isObj v = (case v of JObj ps \<Rightarrow> True | _ \<Rightarrow> False)"

text \<open>Decimal rendering of a length inside a template string.\<close>

definition digit :: "nat \<Rightarrow> char" where
  "digit d = char_of (48 + d)"

fun showNat :: "nat \<Rightarrow> string" where
  "showNat n = (if n < 10 then [digit n] else showNat (n div 10) @ [digit (n mod 10)])"

declare showNat.simps [simp del]

section \<open>Strings\<close>

definition showInt :: "int \<Rightarrow> string" where
  "showInt n = (if n < 0 then CHR ''-'' # showNat (nat (- n)) else showNat (nat n))"

fun joinStrings :: "string \<Rightarrow> string list \<Rightarrow> string" where
  "joinStrings sep [] = []"
| "joinStrings sep [s] = s"
| "joinStrings sep (s # t # ss) = s @ sep @ joinStrings sep (t # ss)"

text \<open>
  String conversion inside a template literal and inside \<open>Array.prototype.join\<close> (which
  renders \<open>null\<close> and \<open>undefined\<close> elements as the empty string).
\<close>

fun templ :: "jsval \<Rightarrow> string" where
  "templ JUndefined = ''undefined''"
| "templ JNull = ''null''"
| "templ (JBool b) = (if b then ''true'' else ''false'')"
| "templ (JNum n) = showInt n"
| "templ JNaN = ''NaN''"
| "templ (JStr s) = s"
| "templ (JArr xs) = joinStrings '','' (map (\<lambda>x. if x = JUndefined \<or> x = JNull then [] else templ x) xs)"
| "templ (JObj ps) = ''[object Object]''"

definition arrayJoin :: "string \<Rightarrow> jsval list \<Rightarrow> string" where
  "arrayJoin sep xs = joinStrings sep (map (\<lambda>x. if x = JUndefined \<or> x = JNull then [] else templ x) xs)"

definition startsWith :: "string \<Rightarrow> string \<Rightarrow> bool" where
  "startsWith p s = (take (length p) s = p)"

text \<open>\<open>s.includes(p)\<close> on strings: \<open>p\<close> occurs in \<open>s\<close>.\<close>

fun includesStr :: "string \<Rightarrow> string \<Rightarrow> bool" where
  "includesStr p [] = (p = [])"
| "includesStr p (c # cs) = (startsWith p (c # cs) \<or> includesStr p cs)"

text \<open>
  \<open>s.split(sep)\<close> for a non-empty separator: the pieces between the occurrences of
  \<open>sep\<close>, found from left to right without overlap. \<open>acc\<close> is the piece being read.
\<close>

function splitAux :: "string \<Rightarrow> string \<Rightarrow> string \<Rightarrow> string list" where
  "splitAux sep acc [] = [acc]"
| "splitAux sep acc (c # cs) =
     (if sep \<noteq> [] \<and> startsWith sep (c # cs)
      then acc # splitAux sep [] (drop (length sep) (c # cs))
      else splitAux sep (acc @ [c]) cs)"
  by pat_completeness auto
termination
  by (relation "measure (\<lambda>(sep, acc, s). length s)") (auto simp: neq_Nil_conv)

definition split :: "string \<Rightarrow> string \<Rightarrow> string list" where
  "split sep s = splitAux sep [] s"

text \<open>
  The case folding of a regular expression with flag \<open>i\<close> (and without \<open>u\<close>): a pattern of
  ASCII letters matches a character exactly when the two are equal up to ASCII case.
\<close>

definition lowerChar :: "char \<Rightarrow> char" where
  "lowerChar c = (let n = (of_char c :: nat) in if 65 \<le> n \<and> n \<le> 90 then char_of (n + 32) else c)"

definition startsWithCI :: "string \<Rightarrow> string \<Rightarrow> bool" where
  "startsWithCI p s = (map lowerChar (take (length p) s) = map lowerChar p)"

text \<open>
  \<open>s.replace(/p/gi, '')\<close> for a literal, non-empty pattern \<open>p\<close>: one scan from left to
  right; each match is dropped and the scan goes on behind it. The result is not scanned
  again.
\<close>

function removeAllCI :: "string \<Rightarrow> string \<Rightarrow> string" where
  "removeAllCI p [] = []"
| "removeAllCI p (c # cs) =
     (if p \<noteq> [] \<and> startsWithCI p (c # cs)
      then removeAllCI p (drop (length p) (c # cs))
      else c # removeAllCI p cs)"
  by pat_completeness auto
termination
  by (relation "measure (\<lambda>(p, s). length s)") (auto simp: neq_Nil_conv)

text \<open>\<open>s.replace(/[<>]/g, '')\<close>\<close>

definition removeAngles :: "string \<Rightarrow> string" where
  "removeAngles s = filter (\<lambda>c. c \<noteq> CHR ''<'' \<and> c \<noteq> CHR ''>'') s"

text \<open>
  \<open>s.trim()\<close>: the white space and line terminators among the code units below 256 are
  tab, line feed, vertical tab, form feed, carriage return, space and no-break space.
\<close>

definition isWhiteSpace :: "char \<Rightarrow> bool" where
  "isWhiteSpace c = ((of_char c :: nat) \<in> {9, 10, 11, 12, 13, 32, 160})"

definition trim :: "string \<Rightarrow> string" where
  "trim s = rev (dropWhile isWhiteSpace (rev (dropWhile isWhiteSpace s)))"

text \<open>\<open>key.replace(/[.#$[\]]/g, '_')\<close>\<close>

definition sanitizeKey :: "string \<Rightarrow> string" where
  "sanitizeKey k = map (\<lambda>c. if c \<in> set ''.#$[]'' then CHR ''_'' else c) k"

section \<open>Response envelopes (\<open>FirebaseResponse\<close>)\<close>

text \<open>
  What the code reads from its surroundings: the clock as an ISO string
  (\<open>new Date().toISOString()\<close>), the elapsed time \<open>Date.now() - startTime\<close> a service
  or middleware measures, and whether \<open>NODE_ENV\<close> is \<open>development\<close>. One reading of the
  clock and one elapsed time stand for all the readings taken while one request is handled.
  The logger calls only print and are left out.
\<close>

record env =
  isoNow :: string
  development :: bool
  elapsed :: int

text \<open>
  A caught or constructed error, by the four properties the code reads from it; a property
  the error does not have is \<open>JUndefined\<close>.
\<close>

record js_error =
  emessage :: jsval
  ecode :: jsval
  estack :: jsval
  edetails :: jsval

text \<open>\<open>new Error(msg)\<close>: a message and a stack trace, no code, no details.\<close>

definition newError :: "string \<Rightarrow> string \<Rightarrow> js_error" where
  "newError msg stack =
     \<lparr>emessage = JStr msg, ecode = JUndefined, estack = JStr stack, edetails = JUndefined\<rparr>"

text \<open>\<open>...(timing && { timing: { duration: timing, unit: 'ms' } })\<close>; \<open>None\<close> is \<open>null\<close>.\<close>

definition timingField :: "int option \<Rightarrow> props" where
  "timingField timing =
     (case timing of
        None \<Rightarrow> []
      | Some t \<Rightarrow>
          if t \<noteq> 0 then [(''timing'', JObj [(''duration'', JNum t), (''unit'', JStr ''ms'')])]
          else [])"

definition FirebaseResponse_success :: "env \<Rightarrow> jsval \<Rightarrow> string \<Rightarrow> int option \<Rightarrow> props \<Rightarrow> jsval" where
  "FirebaseResponse_success e data message timing meta =
     JObj ([(''success'', JBool True),
            (''message'', JStr message),
            (''timestamp'', JStr (isoNow e))]
           @ (if truthy data then [(''data'', data)] else [])
           @ timingField timing
           @ (if length meta > 0 then [(''meta'', JObj meta)] else []))"

definition errorInfo :: "env \<Rightarrow> js_error \<Rightarrow> string \<Rightarrow> props \<Rightarrow> int option \<Rightarrow> props" where
  "errorInfo e error operation additionalContext timing =
     spread
       ([(''message'', jsor (emessage error) (JStr ''Unknown error occurred'')),
         (''code'', jsor (ecode error) (JStr ''UNKNOWN_ERROR'')),
         (''operation'', JStr operation),
         (''timestamp'', JStr (isoNow e))]
        @ timingField timing
        @ (if development e
           then [(''stack'', estack error), (''details'', jsor (edetails error) JNull)]
           else []))
       additionalContext"

definition FirebaseResponse_error :: "env \<Rightarrow> js_error \<Rightarrow> string \<Rightarrow> props \<Rightarrow> int option \<Rightarrow> jsval" where
  "FirebaseResponse_error e error operation additionalContext timing =
     JObj [(''success'', JBool False),
           (''error'', JObj (errorInfo e error operation additionalContext timing)),
           (''timestamp'', JStr (isoNow e))]"

definition FirebaseResponse_validation :: "env \<Rightarrow> jsval \<Rightarrow> string \<Rightarrow> jsval" where
  "FirebaseResponse_validation e errors message =
     JObj [(''success'', JBool False),
           (''message'', JStr message),
           (''errors'', (case errors of JArr xs \<Rightarrow> errors | _ \<Rightarrow> JArr [errors])),
           (''timestamp'', JStr (isoNow e)),
           (''type'', JStr ''VALIDATION_ERROR'')]"

definition FirebaseResponse_unauthorized :: "env \<Rightarrow> string \<Rightarrow> string \<Rightarrow> jsval" where
  "FirebaseResponse_unauthorized e message code =
     JObj [(''success'', JBool False),
           (''message'', JStr message),
           (''error'', JObj [(''code'', JStr code),
                             (''type'', JStr ''AUTHENTICATION_ERROR''),
                             (''timestamp'', JStr (isoNow e))]),
           (''timestamp'', JStr (isoNow e))]"

definition FirebaseResponse_forbidden :: "env \<Rightarrow> string \<Rightarrow> string \<Rightarrow> jsval" where
  "FirebaseResponse_forbidden e message code =
     JObj [(''success'', JBool False),
           (''message'', JStr message),
           (''error'', JObj [(''code'', JStr code),
                             (''type'', JStr ''AUTHORIZATION_ERROR''),
                             (''timestamp'', JStr (isoNow e))]),
           (''timestamp'', JStr (isoNow e))]"

definition FirebaseResponse_notFound :: "env \<Rightarrow> string \<Rightarrow> jsval \<Rightarrow> jsval" where
  "FirebaseResponse_notFound e resource identifier =
     (let message =
            (if truthy identifier
             then resource @ '' with identifier '' @ [CHR 39] @ templ identifier @ [CHR 39] @ '' not found''
             else resource @ '' not found'')
      in JObj [(''success'', JBool False),
               (''message'', JStr message),
               (''error'', JObj [(''code'', JStr ''NOT_FOUND''),
                                 (''type'', JStr ''RESOURCE_ERROR''),
                                 (''resource'', JStr resource),
                                 (''identifier'', identifier),
                                 (''timestamp'', JStr (isoNow e))]),
               (''timestamp'', JStr (isoNow e))])"

text \<open>\<open>data\<close> is an array, \<open>pagination\<close> an object.\<close>

definition FirebaseResponse_paginated :: "env \<Rightarrow> jsval list \<Rightarrow> props \<Rightarrow> string \<Rightarrow> jsval" where
  "FirebaseResponse_paginated e data pagination message =
     JObj [(''success'', JBool True),
           (''message'', JStr message),
           (''data'', JArr data),
           (''pagination'',
              JObj (spread
                [(''currentPage'', jsor (getProp (JObj pagination) ''page'') (JNum 1)),
                 (''limit'', jsor (getProp (JObj pagination) ''limit'') (JNum 20)),
                 (''total'', jsor (getProp (JObj pagination) ''total'') (JNum (int (length data)))),
                 (''hasMore'', jsor (getProp (JObj pagination) ''hasMore'') (JBool False))]
                pagination)),
           (''timestamp'', JStr (isoNow e))]"

text \<open>
  \<open>results\<close> is the array of per-operation results. The \<open>successRate\<close> string is a
  floating-point quotient rendered by \<open>toFixed(2)\<close>; it is taken as a function of the two
  lengths it is computed from.
\<close>

definition successful :: "jsval list \<Rightarrow> jsval list" where
  "successful results = filter (\<lambda>r. truthy (getProp r ''success'')) results"

definition failed :: "jsval list \<Rightarrow> jsval list" where
  "failed results = filter (\<lambda>r. \<not> truthy (getProp r ''success'')) results"

definition FirebaseResponse_batch :: "env \<Rightarrow> (nat \<Rightarrow> nat \<Rightarrow> string) \<Rightarrow> jsval list \<Rightarrow> string \<Rightarrow> jsval" where
  "FirebaseResponse_batch e rate results operation =
     JObj [(''success'', JBool (length (failed results) = 0)),
           (''message'', JStr (operation @ '' completed: '' @ showNat (length (successful results))
                               @ '' successful, '' @ showNat (length (failed results)) @ '' failed'')),
           (''summary'',
              JObj [(''total'', JNum (int (length results))),
                    (''successful'', JNum (int (length (successful results)))),
                    (''failed'', JNum (int (length (failed results)))),
                    (''successRate'', JStr (rate (length (successful results)) (length results)))]),
           (''results'', JArr results),
           (''timestamp'', JStr (isoNow e))]"

text \<open>The shorthands of \<open>FirebaseResponses\<close> used below.\<close>

definition document_deleted :: "env \<Rightarrow> jsval \<Rightarrow> int option \<Rightarrow> jsval" where
  "document_deleted e docId timing =
     FirebaseResponse_success e (JObj [(''id'', docId), (''deleted'', JBool True)])
       ''Document deleted successfully'' timing []"

definition document_notFound :: "env \<Rightarrow> jsval \<Rightarrow> jsval \<Rightarrow> jsval" where
  "document_notFound e collection docId =
     FirebaseResponse_notFound e ''Document'' (JStr (templ collection @ ''/'' @ templ docId))"

definition auth_tokenVerified :: "env \<Rightarrow> jsval \<Rightarrow> int option \<Rightarrow> jsval" where
  "auth_tokenVerified e decoded timing =
     FirebaseResponse_success e decoded ''Token verified successfully'' timing []"

definition auth_invalidToken :: "env \<Rightarrow> jsval" where
  "auth_invalidToken e = FirebaseResponse_unauthorized e ''Invalid or expired token'' ''INVALID_TOKEN''"

definition auth_missingToken :: "env \<Rightarrow> jsval" where
  "auth_missingToken e = FirebaseResponse_unauthorized e ''Authorization token required'' ''MISSING_TOKEN''"

section \<open>The auth service (\<open>AuthService\<close>)\<close>

text \<open>
  The identity provider's SDK is outside the repository; the service is modelled over what
  its calls answer. \<open>getAuth\<close> is \<open>Some err\<close> when obtaining the handle throws \<open>err\<close>
  (then \<open>initialize\<close> rethrows it on every call); a remote call answers \<open>Inl err\<close> when it
  rejects with \<open>err\<close> and \<open>Inr v\<close> when it resolves with the object \<open>v\<close>.
\<close>

record auth_sdk =
  getAuth :: "js_error option"
  sdkVerifyIdToken :: "string \<Rightarrow> bool \<Rightarrow> js_error + props"
  sdkGetUser :: "jsval \<Rightarrow> js_error + props"

text \<open>
  A TypeError raised by the runtime: a message, no code. The message texts and the stack
  are the runtime's; they are abbreviated here.
\<close>

definition typeError :: "string \<Rightarrow> js_error" where
  "typeError msg = newError msg ''TypeError''"

text \<open>
  \<open>new Date(v * 1000)\<close>: the date object is represented by the seconds it was built from.
\<close>

definition dateOfSeconds :: "jsval \<Rightarrow> jsval" where
  "dateOfSeconds v = JObj [(''dateOfSeconds'', v)]"

definition tokenUserData :: "props \<Rightarrow> jsval" where
  "tokenUserData decodedToken =
     (let d = JObj decodedToken
      in JObj [(''uid'', getProp d ''uid''),
               (''email'', getProp d ''email''),
               (''emailVerified'', getProp d ''email_verified''),
               (''name'', getProp d ''name''),
               (''picture'', getProp d ''picture''),
               (''phoneNumber'', getProp d ''phone_number''),
               (''issuer'', getProp d ''iss''),
               (''audience'', getProp d ''aud''),
               (''issuedAt'', dateOfSeconds (getProp d ''iat'')),
               (''expiresAt'', dateOfSeconds (getProp d ''exp'')),
               (''authTime'', dateOfSeconds (getProp d ''auth_time'')),
               (''customClaims'', jsor (getProp d ''customClaims'') (JObj []))])"

text \<open>The \<open>catch\<close> block of \<open>verifyIdToken\<close>.\<close>

definition verifyIdToken_catch :: "env \<Rightarrow> js_error \<Rightarrow> jsval" where
  "verifyIdToken_catch e error =
     (if ecode error = JStr ''auth/id-token-expired'' then auth_invalidToken e
      else if ecode error = JStr ''auth/id-token-revoked''
        then FirebaseResponse_unauthorized e ''Token has been revoked'' ''TOKEN_REVOKED''
      else if ecode error = JStr ''auth/invalid-id-token'' then auth_invalidToken e
      else FirebaseResponse_error e error ''verifyIdToken'' [] (Some (elapsed e)))"

definition verifyIdToken :: "env \<Rightarrow> auth_sdk \<Rightarrow> string \<Rightarrow> bool \<Rightarrow> jsval" where
  "verifyIdToken e sdk idToken checkRevoked =
     (case getAuth sdk of
        Some error \<Rightarrow> verifyIdToken_catch e error
      | None \<Rightarrow>
          if idToken = [] then auth_missingToken e
          else (case sdkVerifyIdToken sdk idToken checkRevoked of
                  Inl error \<Rightarrow> verifyIdToken_catch e error
                | Inr decodedToken \<Rightarrow>
                    auth_tokenVerified e (tokenUserData decodedToken) (Some (elapsed e))))"

definition userRecordData :: "props \<Rightarrow> jsval \<Rightarrow> jsval" where
  "userRecordData userRecord metadata =
     (let u = JObj userRecord
      in JObj [(''uid'', getProp u ''uid''),
               (''email'', getProp u ''email''),
               (''displayName'', getProp u ''displayName''),
               (''photoURL'', getProp u ''photoURL''),
               (''emailVerified'', getProp u ''emailVerified''),
               (''phoneNumber'', getProp u ''phoneNumber''),
               (''disabled'', getProp u ''disabled''),
               (''metadata'', JObj [(''createdAt'', getProp metadata ''creationTime''),
                                    (''lastSignIn'', getProp metadata ''lastSignInTime''),
                                    (''lastRefresh'', getProp metadata ''lastRefreshTime'')]),
               (''customClaims'', jsor (getProp u ''customClaims'') (JObj [])),
               (''providerData'', getProp u ''providerData'')])"

text \<open>The \<open>catch\<close> block of \<open>getUserByUid\<close>.\<close>

definition getUserByUid_catch :: "env \<Rightarrow> jsval \<Rightarrow> js_error \<Rightarrow> jsval" where
  "getUserByUid_catch e uid error =
     (if ecode error = JStr ''auth/user-not-found'' then FirebaseResponse_notFound e ''User'' uid
      else FirebaseResponse_error e error ''getUserByUid'' [(''uid'', uid)] (Some (elapsed e)))"

definition getUserByUid :: "env \<Rightarrow> auth_sdk \<Rightarrow> jsval \<Rightarrow> jsval" where
  "getUserByUid e sdk uid =
     (case getAuth sdk of
        Some error \<Rightarrow> getUserByUid_catch e uid error
      | None \<Rightarrow>
          (case sdkGetUser sdk uid of
             Inl error \<Rightarrow> getUserByUid_catch e uid error
           | Inr userRecord \<Rightarrow>
               (let metadata = getProp (JObj userRecord) ''metadata''
                in if nullish metadata
                   then getUserByUid_catch e uid
                          (typeError ''Cannot read properties of undefined (reading creationTime)'')
                   else FirebaseResponse_success e (userRecordData userRecord metadata)
                          ''User retrieved successfully'' (Some (elapsed e)) [])))"

section \<open>Requests and middleware results\<close>

text \<open>
  A request is the object Express hands to the middleware, by its properties (\<open>headers\<close>,
  \<open>body\<close>, \<open>params\<close>, \<open>query\<close>, \<open>user\<close>, \<open>ip\<close>, ...); they are plain writable
  properties. A middleware returns the request as it leaves it and what it did: call
  \<open>next()\<close>, or answer with \<open>res.status(code).json(body)\<close>.
\<close>

type_synonym request = props

datatype action = Next | Respond nat jsval

definition reqGet :: "request \<Rightarrow> string \<Rightarrow> jsval" where
  "reqGet req k = getProp (JObj req) k"

definition reqSet :: "request \<Rightarrow> string \<Rightarrow> jsval \<Rightarrow> request" where
  "reqSet req k v = AList.update k v req"

section \<open>Authorization middleware\<close>

text \<open>The \<open>catch\<close> block of \<open>verifyFirebaseToken\<close>.\<close>

definition verifyFirebaseToken_catch :: "env \<Rightarrow> request \<Rightarrow> js_error \<Rightarrow> request \<times> action" where
  "verifyFirebaseToken_catch e req error =
     (req, Respond 500 (FirebaseResponse_error e error ''token verification'' [] (Some (elapsed e))))"

text \<open>
  \<open>verifyFirebaseToken({ checkRevoked, optional })\<close> applied to a request. The header is
  whatever \<open>req.headers.authorization\<close> holds: calling \<open>startsWith\<close> on a truthy value that
  is not a string raises a TypeError, as does reading \<open>authorization\<close> from missing headers.
\<close>

definition verifyFirebaseToken :: "env \<Rightarrow> auth_sdk \<Rightarrow> bool \<Rightarrow> bool \<Rightarrow> request \<Rightarrow> request \<times> action" where
  "verifyFirebaseToken e sdk checkRevoked optional req =
     (if nullish (reqGet req ''headers'')
      then verifyFirebaseToken_catch e req
             (typeError ''Cannot read properties of undefined (reading authorization)'')
      else
        (let authHeader = getProp (reqGet req ''headers'') ''authorization''
         in if \<not> truthy authHeader \<or> (case authHeader of JStr h \<Rightarrow> \<not> startsWith ''Bearer '' h | _ \<Rightarrow> False)
            then (if optional then (reqSet req ''user'' JNull, Next)
                  else (req, Respond 401
                          (FirebaseResponse_unauthorized e ''Authorization token required'' ''MISSING_TOKEN'')))
            else
              (case authHeader of
                 JStr h \<Rightarrow>
                   (case split ''Bearer '' h of
                      a # idToken # rest \<Rightarrow>
                        if idToken = []
                        then (if optional then (reqSet req ''user'' JNull, Next)
                              else (req, Respond 401
                                      (FirebaseResponse_unauthorized e ''Invalid authorization format'' ''INVALID_FORMAT'')))
                        else
                          (let verificationResult = verifyIdToken e sdk idToken checkRevoked
                           in if \<not> truthy (getProp verificationResult ''success'')
                              then (req, Respond 401 verificationResult)
                              else
                                (let req1 = reqSet req ''user'' (getProp verificationResult ''data'');
                                     req2 = reqSet req1 ''authTiming'' (JNum (elapsed e))
                                 in if nullish (reqGet req2 ''user'')
                                    then verifyFirebaseToken_catch e req2
                                           (typeError ''Cannot read properties of undefined (reading uid)'')
                                    else (req2, Next)))
                    | _ \<Rightarrow>
                        (if optional then (reqSet req ''user'' JNull, Next)
                         else (req, Respond 401
                                 (FirebaseResponse_unauthorized e ''Invalid authorization format'' ''INVALID_FORMAT''))))
               | _ \<Rightarrow>
                   verifyFirebaseToken_catch e req (typeError ''authHeader.startsWith is not a function''))))"

definition optionalFirebaseAuth :: "env \<Rightarrow> auth_sdk \<Rightarrow> request \<Rightarrow> request \<times> action" where
  "optionalFirebaseAuth e sdk req = verifyFirebaseToken e sdk False True req"

text \<open>
  \<open>userRoles.includes(requiredRole)\<close>: membership in an array, occurrence in a string;
  any other value has no \<open>includes\<close> and the call raises a TypeError (\<open>None\<close>).
\<close>

definition jsIncludes :: "jsval \<Rightarrow> string \<Rightarrow> bool option" where
  "jsIncludes v x =
     (case v of
        JArr xs \<Rightarrow> Some (JStr x \<in> set xs)
      | JStr s \<Rightarrow> Some (includesStr x s)
      | _ \<Rightarrow> None)"

text \<open>The \<open>catch\<close> block of \<open>requireRole\<close>.\<close>

definition requireRole_catch :: "env \<Rightarrow> request \<Rightarrow> js_error \<Rightarrow> request \<times> action" where
  "requireRole_catch e req error =
     (req, Respond 500 (FirebaseResponse_error e error ''role verification'' [] None))"

text \<open>An error object an envelope carries, as \<open>FirebaseResponse.error\<close> reads it.\<close>

definition asError :: "jsval \<Rightarrow> js_error" where
  "asError v = \<lparr>emessage = getProp v ''message'', ecode = getProp v ''code'',
                estack = getProp v ''stack'', edetails = getProp v ''details''\<rparr>"

definition requireRole :: "env \<Rightarrow> auth_sdk \<Rightarrow> string \<Rightarrow> request \<Rightarrow> request \<times> action" where
  "requireRole e sdk requiredRole req =
     (if \<not> truthy (reqGet req ''user'')
      then (req, Respond 401
              (FirebaseResponse_unauthorized e ''Authentication required for role check'' ''UNAUTHORIZED''))
      else
        (let userResult = getUserByUid e sdk (getProp (reqGet req ''user'') ''uid'')
         in if \<not> truthy (getProp userResult ''success'')
            then (if nullish (getProp userResult ''error'')
                  then requireRole_catch e req
                         (typeError ''Cannot read properties of undefined (reading message)'')
                  else (req, Respond 500
                          (FirebaseResponse_error e (asError (getProp userResult ''error''))
                             ''role verification'' [] None)))
            else if nullish (getProp userResult ''data'')
            then requireRole_catch e req
                   (typeError ''Cannot read properties of undefined (reading customClaims)'')
            else
              (let customClaims = getProp (getProp userResult ''data'') ''customClaims'';
                   userRoles = jsor (getOpt customClaims ''roles'') (JArr []);
                   userRole = getOpt customClaims ''role''
               in case jsIncludes userRoles requiredRole of
                    None \<Rightarrow> requireRole_catch e req (typeError ''userRoles.includes is not a function'')
                  | Some member \<Rightarrow>
                      (let hasRole = (member \<or> userRole = JStr requiredRole)
                       in if \<not> hasRole
                          then (req, Respond 403
                                  (FirebaseResponse_forbidden e
                                     (''Role '' @ [CHR 39] @ requiredRole @ [CHR 39] @ '' required'')
                                     ''INSUFFICIENT_ROLE''))
                          else (reqSet (reqSet req ''userRoles'' userRoles) ''userRole'' userRole, Next)))))"

section \<open>Validation middleware\<close>

text \<open>
  The schema library is outside the repository. \<open>schema.validate(data, options)\<close> either
  throws, or returns an error with its list of details, or returns the coerced value; it
  builds the coerced value afresh and leaves the value it is given as it was.
\<close>

record detail =
  dpath :: "jsval list"
  dmessage :: jsval
  dcontext :: jsval
  dtype :: jsval

datatype validation = ValidationThrows js_error | ValidationError "detail list" | ValidationValue jsval

definition validationErrorOf :: "detail \<Rightarrow> jsval" where
  "validationErrorOf d =
     JObj [(''field'', JStr (arrayJoin ''.'' (dpath d))),
           (''message'', dmessage d),
           (''value'', getOpt (dcontext d) ''value''),
           (''type'', dtype d)]"

text \<open>
  \<open>validateFirebase(schema, source)\<close> applied to a request. After the part is replaced,
  \<open>Object.keys(value)\<close> raises a TypeError when the coerced value is \<open>null\<close> or
  \<open>undefined\<close>, and the \<open>catch\<close> block answers 500.
\<close>

definition validateFirebase :: "env \<Rightarrow> (jsval \<Rightarrow> validation) \<Rightarrow> string \<Rightarrow> request \<Rightarrow> request \<times> action" where
  "validateFirebase e schema source req =
     (let data = (if source = ''body'' then reqGet req ''body''
                  else if source = ''params'' then reqGet req ''params''
                  else if source = ''query'' then reqGet req ''query''
                  else if source = ''headers'' then reqGet req ''headers''
                  else reqGet req source)
      in case schema data of
           ValidationThrows validationError \<Rightarrow>
             (req, Respond 500
                (FirebaseResponse_error e validationError ''validation middleware'' [] (Some (elapsed e))))
         | ValidationError details \<Rightarrow>
             (req, Respond 400
                (FirebaseResponse_validation e (JArr (map validationErrorOf details)) ''Validation failed''))
         | ValidationValue v \<Rightarrow>
             (let req1 = (if source = ''body'' then reqSet req ''body'' v
                          else if source = ''params'' then reqSet req ''params'' v
                          else if source = ''query'' then reqSet req ''query'' v
                          else if source = ''headers'' then reqSet req ''headers'' v
                          else reqSet req source v)
              in if nullish v
                 then (req1, Respond 500
                         (FirebaseResponse_error e
                            (typeError ''Cannot convert undefined or null to object'')
                            ''validation middleware'' [] (Some (elapsed e))))
                 else (req1, Next)))"

section \<open>Sanitizer\<close>

definition sanitizeString :: "string \<Rightarrow> string" where
  "sanitizeString s = trim (removeAllCI ''data:'' (removeAllCI ''javascript:'' (removeAngles s)))"

text \<open>
  \<open>sanitized[sanitizedKey] = ...\<close> for the entries in turn: a key that is already there
  keeps its place and takes the new value.
\<close>

definition assignAll :: "props \<Rightarrow> props" where
  "assignAll entries = foldl (\<lambda>sanitized (k, v). AList.update k v sanitized) [] entries"

fun sanitizeValue :: "jsval \<Rightarrow> jsval" where
  "sanitizeValue (JStr s) = JStr (sanitizeString s)"
| "sanitizeValue (JArr xs) = JArr (map sanitizeValue xs)"
| "sanitizeValue (JObj ps) = JObj (assignAll (map (\<lambda>(key, val). (sanitizeKey key, sanitizeValue val)) ps))"
| "sanitizeValue v = v"

definition sanitizeFirebaseData :: "request \<Rightarrow> request \<times> action" where
  "sanitizeFirebaseData req =
     (let req1 = (if truthy (reqGet req ''body'')
                  then reqSet req ''body'' (sanitizeValue (reqGet req ''body'')) else req);
          req2 = (if truthy (reqGet req1 ''query'')
                  then reqSet req1 ''query'' (sanitizeValue (reqGet req1 ''query'')) else req1)
      in (req2, Next))"

section \<open>Rate limiter\<close>









section \<open>The document service (\<open>FirestoreService\<close>)\<close>

text \<open>
  The document store is the provider's. It is modelled by its contract: a document is
  stored under a collection and an id; \<open>get\<close> reads it, \<open>delete\<close> removes it, \<open>update\<close>
  merges fields into it. Each call of the SDK may also throw: obtaining the handle
  (\<open>getFirestore\<close>), building a reference (\<open>refError\<close>, the id \<open>None\<close> for an
  auto-generated one), the remote read and the remote write of a single-document operation,
  staging a write in a batch, and committing the batch. A call that throws leaves the store
  as it was.
\<close>

type_synonym store = "jsval \<times> jsval \<Rightarrow> props option"

datatype batch_write = WSet jsval jsval props | WUpdate jsval jsval props | WDelete jsval jsval

record firestore_sdk =
  getFirestore :: "js_error option"
  refError :: "jsval \<Rightarrow> jsval option \<Rightarrow> js_error option"
  autoId :: "nat \<Rightarrow> jsval"
  readError :: "js_error option"
  writeError :: "js_error option"
  stageError :: "batch_write \<Rightarrow> js_error option"
  commitError :: "batch_write list \<Rightarrow> js_error option"
  serverTime :: jsval

text \<open>The sentinel \<open>FieldValue.serverTimestamp()\<close>, which the store replaces by its clock.\<close>

definition serverTimestamp :: jsval where
  "serverTimestamp = JObj [(''FieldValue'', JStr ''serverTimestamp'')]"

definition resolveSentinels :: "firestore_sdk \<Rightarrow> props \<Rightarrow> props" where
  "resolveSentinels sdk written =
     map (\<lambda>(k, v). (k, if v = serverTimestamp then serverTime sdk else v)) written"

text \<open>The own enumerable properties a spread \<open>...v\<close> copies.\<close>

definition ownProps :: "jsval \<Rightarrow> props" where
  "ownProps v =
     (case v of
        JObj ps \<Rightarrow> ps
      | JArr xs \<Rightarrow> zip (map showNat [0..<length xs]) xs
      | JStr s \<Rightarrow> zip (map showNat [0..<length s]) (map (\<lambda>c. JStr [c]) s)
      | _ \<Rightarrow> [])"

definition deleteDocument ::
  "env \<Rightarrow> firestore_sdk \<Rightarrow> store \<Rightarrow> jsval \<Rightarrow> jsval \<Rightarrow> bool \<Rightarrow> jsval \<Rightarrow> store \<times> jsval" where
  "deleteDocument e sdk db collection docId hardDelete userId =
     (let caught = (\<lambda>error. FirebaseResponse_error e error ''deleteDocument''
                              [(''collection'', collection), (''docId'', docId)] (Some (elapsed e)))
      in case getFirestore sdk of
           Some error \<Rightarrow> (db, caught error)
         | None \<Rightarrow>
             (case refError sdk collection (Some docId) of
                Some error \<Rightarrow> (db, caught error)
              | None \<Rightarrow>
                  (case readError sdk of
                     Some error \<Rightarrow> (db, caught error)
                   | None \<Rightarrow>
                       (case db (collection, docId) of
                          None \<Rightarrow> (db, document_notFound e collection docId)
                        | Some doc \<Rightarrow>
                            (case writeError sdk of
                               Some error \<Rightarrow> (db, caught error)
                             | None \<Rightarrow>
                                 ((if hardDelete then db((collection, docId) := None)
                                   else db((collection, docId) \<mapsto>
                                          spread doc
                                            (resolveSentinels sdk
                                               ([(''deleted'', JBool True),
                                                 (''deletedAt'', serverTimestamp)]
                                                @ (if truthy userId then [(''deletedBy'', userId)] else []))))),
                                  document_deleted e docId (Some (elapsed e))))))))"

text \<open>
  The handler of \<open>DELETE /collections/:collection/documents/:id\<close>: it reads the
  parameters, calls the service once and maps the envelope to a status. Reading from a
  missing \<open>params\<close>, \<open>query\<close> or \<open>user\<close> raises a TypeError, which the handler's own
  \<open>catch\<close> answers.
\<close>

definition deleteDocumentHandler :: "env \<Rightarrow> firestore_sdk \<Rightarrow> store \<Rightarrow> request \<Rightarrow> store \<times> action" where
  "deleteDocumentHandler e sdk db req =
     (let caught = (\<lambda>error. (db, Respond 500 (JObj [(''success'', JBool False), (''error'', emessage error)])))
      in if nullish (reqGet req ''params'')
         then caught (typeError ''Cannot destructure property collection of req.params'')
         else if nullish (reqGet req ''query'')
         then caught (typeError ''Cannot destructure property hardDelete of req.query'')
         else if nullish (reqGet req ''user'')
         then caught (typeError ''Cannot read properties of undefined (reading uid)'')
         else
           (case deleteDocument e sdk db
                   (getProp (reqGet req ''params'') ''collection'')
                   (getProp (reqGet req ''params'') ''id'')
                   (truthy (getProp (reqGet req ''query'') ''hardDelete''))
                   (getProp (reqGet req ''user'') ''uid'') of
              (db1, result) \<Rightarrow>
                (db1, Respond (if truthy (getProp result ''success'') then 200 else 404) result)))"

text \<open>
  \<open>{ ...data, createdAt: serverTimestamp(), updatedAt: serverTimestamp() }\<close> and
  \<open>{ ...data, updatedAt: serverTimestamp() }\<close>
\<close>

definition createData :: "jsval \<Rightarrow> props" where
  "createData data =
     spread (ownProps data) [(''createdAt'', serverTimestamp), (''updatedAt'', serverTimestamp)]"

definition updateData :: "jsval \<Rightarrow> props" where
  "updateData data = spread (ownProps data) [(''updatedAt'', serverTimestamp)]"

text \<open>
  One turn of the \<open>forEach\<close> of \<open>batchOperations\<close> on an operation that is an object:
  the writes it stages (none or one) and the result it pushes.
\<close>

definition stageOp :: "firestore_sdk \<Rightarrow> nat \<Rightarrow> jsval \<Rightarrow> batch_write list \<times> jsval" where
  "stageOp sdk index operation =
     (let type = getProp operation ''type'';
          collection = getProp operation ''collection'';
          id = getProp operation ''id'';
          data = getProp operation ''data'';
          caught = (\<lambda>opError. ([], JObj [(''success'', JBool False),
                                            (''error'', emessage opError),
                                            (''type'', type),
                                            (''collection'', collection),
                                            (''id'', id),
                                            (''index'', JNum (int index))]));
          pushed = (\<lambda>w i. (case stageError sdk w of
                               Some opError \<Rightarrow> caught opError
                             | None \<Rightarrow> ([w], JObj [(''success'', JBool True),
                                                    (''type'', type),
                                                    (''collection'', collection),
                                                    (''id'', i),
                                                    (''index'', JNum (int index))])))
      in if type = JStr ''create''
         then (case refError sdk collection None of
                 Some opError \<Rightarrow> caught opError
               | None \<Rightarrow>
                   pushed (WSet collection (autoId sdk index) (createData data)) (autoId sdk index))
         else if type = JStr ''update''
         then (case refError sdk collection (Some id) of
                 Some opError \<Rightarrow> caught opError
               | None \<Rightarrow>
                   pushed (WUpdate collection id (updateData data)) id)
         else if type = JStr ''delete''
         then (case refError sdk collection (Some id) of
                 Some opError \<Rightarrow> caught opError
               | None \<Rightarrow> pushed (WDelete collection id) id)
         else ([], JObj [(''success'', JBool False),
                         (''error'', JStr (''Invalid operation type: '' @ templ type)),
                         (''index'', JNum (int index))]))"

text \<open>The \<open>forEach\<close> over the operations, each with its index.\<close>

definition stageAll :: "firestore_sdk \<Rightarrow> jsval list \<Rightarrow> (batch_write list \<times> jsval) list" where
  "stageAll sdk operations =
     map (\<lambda>(index, operation). stageOp sdk index operation) (List.enumerate 0 operations)"

text \<open>
  \<open>batchOperations(operations)\<close>. Destructuring an operation that is \<open>null\<close> or
  \<open>undefined\<close> raises a TypeError outside the inner \<open>try\<close>, so the outer \<open>catch\<close>
  answers and nothing is committed.
\<close>

definition batchOperations :: "env \<Rightarrow> firestore_sdk \<Rightarrow> (nat \<Rightarrow> nat \<Rightarrow> string) \<Rightarrow> jsval list \<Rightarrow> jsval" where
  "batchOperations e sdk rate operations =
     (let caught = (\<lambda>error. FirebaseResponse_error e error ''batchOperations''
                              [(''operationsCount'', JNum (int (length operations)))] (Some (elapsed e)))
      in case getFirestore sdk of
           Some error \<Rightarrow> caught error
         | None \<Rightarrow>
             if list_ex nullish operations
             then caught (typeError ''Cannot destructure property type of operation'')
             else
               (let staged = stageAll sdk operations;
                    results = map snd staged
                in case commitError sdk (concat (map fst staged)) of
                     Some error \<Rightarrow> caught error
                   | None \<Rightarrow> FirebaseResponse_batch e rate results ''batch operations''))"

section \<open>Notions used in the statements\<close>

text \<open>The header \<open>req.headers.authorization\<close> of a request.\<close>

definition authorizationOf :: "request \<Rightarrow> jsval" where
  "authorizationOf req = getProp (reqGet req ''headers'') ''authorization''"

text \<open>
  The header is absent, or it is a string that does not start with \<open>Bearer \<close>. (Node
  delivers a header as a string, or not at all.)
\<close>

definition lacksBearer :: "jsval \<Rightarrow> bool" where
  "lacksBearer authHeader =
     (case authHeader of
        JUndefined \<Rightarrow> True
      | JStr h \<Rightarrow> \<not> startsWith ''Bearer '' h
      | _ \<Rightarrow> False)"

text \<open>
  The token the middleware hands to \<open>verifyIdToken\<close>, taken from the header as the code
  takes it: the header starts with \<open>Bearer \<close> and the piece that
  \<open>split('Bearer ')[1]\<close> selects is not empty.
\<close>

definition bearerToken :: "jsval \<Rightarrow> string option" where
  "bearerToken authHeader =
     (case authHeader of
        JStr h \<Rightarrow>
          (if startsWith ''Bearer '' h
           then (case split ''Bearer '' h of
                   a # idToken # rest \<Rightarrow> (if idToken = [] then None else Some idToken)
                 | _ \<Rightarrow> None)
           else None)
      | _ \<Rightarrow> None)"

text \<open>
  The two shapes of an envelope as the specification words them:
  \<open>{ success: true, data?, message, timing?, meta? }\<close> and
  \<open>{ success: false, error: { code, type, message, ... } }\<close>. Only the fields that are not
  optional are required here.
\<close>

definition successShape :: "jsval \<Rightarrow> bool" where
  "successShape v = (getProp v ''success'' = JBool True \<and> hasProp v ''message'')"

definition failureShape :: "jsval \<Rightarrow> bool" where
  "failureShape v =
     (getProp v ''success'' = JBool False
      \<and> isObj (getProp v ''error'')
      \<and> hasProp (getProp v ''error'') ''code''
      \<and> hasProp (getProp v ''error'') ''type''
      \<and> hasProp (getProp v ''error'') ''message'')"


text \<open>
  An operation of a batch that stages one write: it is a create, an update or a delete,
  building its reference does not throw, and neither does handing the write to the batch.
\<close>

definition cleanStage :: "firestore_sdk \<Rightarrow> nat \<Rightarrow> jsval \<Rightarrow> bool" where
  "cleanStage sdk index operation =
     (let type = getProp operation ''type'';
          collection = getProp operation ''collection'';
          id = getProp operation ''id'';
          data = getProp operation ''data''
      in (type = JStr ''create''
            \<and> refError sdk collection None = None
            \<and> stageError sdk (WSet collection (autoId sdk index) (createData data)) = None)
       \<or> (type = JStr ''update''
            \<and> refError sdk collection (Some id) = None
            \<and> stageError sdk (WUpdate collection id (updateData data)) = None)
       \<or> (type = JStr ''delete''
            \<and> refError sdk collection (Some id) = None
            \<and> stageError sdk (WDelete collection id) = None))"

text \<open>
  The credential of a header that starts with \<open>Bearer \<close>: the text behind the prefix.
\<close>

definition credentialOf :: "string \<Rightarrow> string" where
  "credentialOf h = drop (length ''Bearer '') h"

text \<open>
  The three cases in which a header carries no token, as C10 names them: it is absent, it
  lacks the bearer prefix, or the token behind the prefix is empty.
\<close>

definition noToken :: "jsval \<Rightarrow> bool" where
  "noToken authHeader =
     (case authHeader of
        JUndefined \<Rightarrow> True
      | JStr h \<Rightarrow> (if startsWith ''Bearer '' h then credentialOf h = [] else True)
      | _ \<Rightarrow> False)"

text \<open>
  The same with a fourth case: behind the prefix stands \<open>Bearer \<close> again (as in
  \<open>Bearer Bearer x\<close>).
\<close>

definition noUsableToken :: "jsval \<Rightarrow> bool" where
  "noUsableToken authHeader =
     (case authHeader of
        JUndefined \<Rightarrow> True
      | JStr h \<Rightarrow> (if startsWith ''Bearer '' h
                  then credentialOf h = [] \<or> startsWith ''Bearer '' (credentialOf h)
                  else True)
      | _ \<Rightarrow> False)"

text \<open>The text of \<open>s\<close> in front of the first occurrence of \<open>sep\<close>; all of \<open>s\<close> when there is none.\<close>

fun textBefore :: "string \<Rightarrow> string \<Rightarrow> string" where
  "textBefore sep [] = []"
| "textBefore sep (c # cs) =
     (if sep \<noteq> [] \<and> startsWith sep (c # cs) then [] else c # textBefore sep cs)"

text \<open>The write an operation of a batch asks for, by its type.\<close>

definition writeOf :: "firestore_sdk \<Rightarrow> nat \<Rightarrow> jsval \<Rightarrow> batch_write" where
  "writeOf sdk index operation =
     (if getProp operation ''type'' = JStr ''create''
      then WSet (getProp operation ''collection'') (autoId sdk index)
             (createData (getProp operation ''data''))
      else if getProp operation ''type'' = JStr ''update''
      then WUpdate (getProp operation ''collection'') (getProp operation ''id'')
             (updateData (getProp operation ''data''))
      else WDelete (getProp operation ''collection'') (getProp operation ''id''))"

text \<open>
  The operations of a batch that stage their write, each with its index, and the writes
  they stage, in the order of the batch.
\<close>

definition cleanOps :: "firestore_sdk \<Rightarrow> jsval list \<Rightarrow> (nat \<times> jsval) list" where
  "cleanOps sdk operations =
     filter (\<lambda>(index, operation). cleanStage sdk index operation) (List.enumerate 0 operations)"

definition stagedWrites :: "firestore_sdk \<Rightarrow> jsval list \<Rightarrow> batch_write list" where
  "stagedWrites sdk operations =
     map (\<lambda>(index, operation). writeOf sdk index operation) (cleanOps sdk operations)"

section \<open>Example inputs\<close>

definition env0 :: env where
  "env0 = \<lparr>isoNow = ''2024-01-01T00:00:00.000Z'', development = False, elapsed = 5\<rparr>"

definition expiredError :: js_error where
  "expiredError = \<lparr>emessage = JStr ''Firebase ID token has expired'',
                    ecode = JStr ''auth/id-token-expired'',
                    estack = JStr ''Error'', edetails = JUndefined\<rparr>"

definition revokedError :: js_error where
  "revokedError = \<lparr>emessage = JStr ''Firebase ID token has been revoked'',
                    ecode = JStr ''auth/id-token-revoked'',
                    estack = JStr ''Error'', edetails = JUndefined\<rparr>"

definition argumentError :: js_error where
  "argumentError = \<lparr>emessage = JStr ''Decoding Firebase ID token failed'',
                     ecode = JStr ''auth/argument-error'',
                     estack = JStr ''Error'', edetails = JUndefined\<rparr>"

text \<open>
  An identity provider that knows the token \<open>good\<close>, reports \<open>revoked\<close> as revoked,
  \<open>garbled\<close> as undecodable and every other token as expired; the user it knows has the
  role list \<open>[admin]\<close>.
\<close>

definition authSdk0 :: auth_sdk where
  "authSdk0 = \<lparr>getAuth = None,
               sdkVerifyIdToken = (\<lambda>idToken checkRevoked.
                  if idToken = ''good'' then Inr [(''uid'', JStr ''u1''), (''email'', JStr ''a@b.c'')]
                  else if idToken = ''revoked'' then Inl revokedError
                  else if idToken = ''garbled'' then Inl argumentError
                  else Inl expiredError),
               sdkGetUser = (\<lambda>uid. Inr [(''uid'', uid), (''metadata'', JObj []),
                                          (''customClaims'', JObj [(''roles'', JArr [JStr ''admin''])])])\<rparr>"

definition reqBad :: request where
  "reqBad = [(''headers'', JObj [(''authorization'', JStr ''Bearer bad'')]), (''ip'', JStr ''10.0.0.1'')]"

definition reqNoHeader :: request where
  "reqNoHeader = [(''headers'', JObj []), (''ip'', JStr ''10.0.0.1'')]"

definition reqBody :: request where
  "reqBody = [(''headers'', JObj []),
              (''body'', JObj [(''name'', JStr ''x''), (''extra'', JNum 1)]),
              (''query'', JObj [(''page'', JStr ''2'')])]"

text \<open>A schema that accepts objects, keeping only the field \<open>name\<close>, and throws on arrays.\<close>

definition schema0 :: "jsval \<Rightarrow> validation" where
  "schema0 data =
     (case data of
        JObj ps \<Rightarrow> ValidationValue (JObj (filter (\<lambda>(k, v). k = ''name'') ps))
      | JArr xs \<Rightarrow> ValidationThrows (typeError ''Invalid schema'')
      | _ \<Rightarrow> ValidationError [\<lparr>dpath = [], dmessage = JStr ''value must be of type object'',
                                dcontext = JObj [(''value'', data)], dtype = JStr ''object.base''\<rparr>])"

text \<open>A rendering of \<open>successRate\<close> for the batches below.\<close>

definition rate0 :: "nat \<Rightarrow> nat \<Rightarrow> string" where
  "rate0 s n = (if n = 0 then ''NaN%'' else if s = n then ''100.00%'' else ''0.00%'')"

text \<open>A document store that answers every call, holding one document.\<close>

definition fsSdk0 :: firestore_sdk where
  "fsSdk0 = \<lparr>getFirestore = None,
              refError = (\<lambda>collection docId. None),
              autoId = (\<lambda>index. JStr (''auto'' @ showNat index)),
              readError = None,
              writeError = None,
              stageError = (\<lambda>w. None),
              commitError = (\<lambda>ws. None),
              serverTime = JNum 1700000000000\<rparr>"

definition db0 :: store where
  "db0 = (\<lambda>path. if path = (JStr ''notes'', JStr ''n1'') then Some [(''name'', JStr ''x'')] else None)"

definition opCreate :: "string \<Rightarrow> jsval" where
  "opCreate name =
     JObj [(''type'', JStr ''create''), (''collection'', JStr ''notes''),
           (''data'', JObj [(''name'', JStr name)])]"

definition opDelete :: "string \<Rightarrow> jsval" where
  "opDelete docId =
     JObj [(''type'', JStr ''delete''), (''collection'', JStr ''notes''), (''id'', JStr docId)]"

definition reqDelete :: request where
  "reqDelete = [(''params'', JObj [(''collection'', JStr ''notes''), (''id'', JStr ''n1'')]),
                (''query'', JObj [(''hardDelete'', JBool True)]),
                (''user'', JObj [(''uid'', JStr ''u1'')])]"



text \<open>A request whose body carries a link, and ones that passed token verification.\<close>

definition reqLink :: request where
  "reqLink = [(''headers'', JObj []),
              (''body'', JObj [(''url'', JStr ''javascript:javajavascript:script:alert(1)'')])]"

definition reqUser :: request where
  "reqUser = [(''headers'', JObj [(''authorization'', JStr ''Bearer good'')]),
              (''user'', JObj [(''uid'', JStr ''u1'')])]"

text \<open>
  An identity provider whose user \<open>u1\<close> has the custom claims
  \<open>{ roles: "administrator" }\<close>, and one whose user has \<open>{ role: "admin", roles: 5 }\<close>.
\<close>

definition authSdkStringRoles :: auth_sdk where
  "authSdkStringRoles =
     \<lparr>getAuth = None,
      sdkVerifyIdToken = (\<lambda>idToken checkRevoked. Inl expiredError),
      sdkGetUser = (\<lambda>uid. Inr [(''uid'', uid), (''metadata'', JObj []),
                                 (''customClaims'', JObj [(''roles'', JStr ''administrator'')])])\<rparr>"

definition authSdkNumberRoles :: auth_sdk where
  "authSdkNumberRoles =
     \<lparr>getAuth = None,
      sdkVerifyIdToken = (\<lambda>idToken checkRevoked. Inl expiredError),
      sdkGetUser = (\<lambda>uid. Inr [(''uid'', uid), (''metadata'', JObj []),
                                 (''customClaims'', JObj [(''role'', JStr ''admin''), (''roles'', JNum 5)])])\<rparr>"

text \<open>A request whose header repeats the scheme.\<close>

definition reqDoubleBearer :: request where
  "reqDoubleBearer = [(''headers'', JObj [(''authorization'', JStr ''Bearer Bearer x'')]),
                      (''ip'', JStr ''10.0.0.1'')]"

text \<open>
  A schema for an object that is not required: it accepts a missing part, with the value
  \<open>undefined\<close>. And one that takes the empty object for no value at all.
\<close>

definition schemaOptional :: "jsval \<Rightarrow> validation" where
  "schemaOptional data =
     (case data of
        JUndefined \<Rightarrow> ValidationValue JUndefined
      | JObj ps \<Rightarrow> ValidationValue (JObj (filter (\<lambda>(k, v). k = ''name'') ps))
      | _ \<Rightarrow> ValidationError [\<lparr>dpath = [], dmessage = JStr ''value must be of type object'',
                                dcontext = JObj [(''value'', data)], dtype = JStr ''object.base''\<rparr>])"

definition schemaEmpty :: "jsval \<Rightarrow> validation" where
  "schemaEmpty data =
     (case data of
        JObj ps \<Rightarrow> (if ps = [] then ValidationValue JUndefined else ValidationValue (JObj ps))
      | _ \<Rightarrow> ValidationValue data)"

definition reqEmptyQuery :: request where
  "reqEmptyQuery = [(''headers'', JObj []), (''query'', JObj []), (''params'', JObj [(''id'', JStr ''n1'')])]"

text \<open>
  A document store that refuses to stage a delete, and one that rejects every commit.
\<close>

definition stageFailure :: js_error where
  "stageFailure = \<lparr>emessage = JStr ''Value for argument documentRef is not a valid DocumentReference'',
                    ecode = JUndefined, estack = JStr ''Error'', edetails = JUndefined\<rparr>"

definition commitFailure :: js_error where
  "commitFailure = \<lparr>emessage = JStr ''The service is currently unavailable'',
                     ecode = JNum 14, estack = JStr ''Error'', edetails = JUndefined\<rparr>"

definition fsSdkRefusesDelete :: firestore_sdk where
  "fsSdkRefusesDelete =
     \<lparr>getFirestore = None,
      refError = (\<lambda>collection docId. None),
      autoId = (\<lambda>index. JStr (''auto'' @ showNat index)),
      readError = None,
      writeError = None,
      stageError = (\<lambda>w. case w of WDelete collection docId \<Rightarrow> Some stageFailure | _ \<Rightarrow> None),
      commitError = (\<lambda>ws. None),
      serverTime = JNum 1700000000000\<rparr>"

definition fsSdkRejectsCommit :: firestore_sdk where
  "fsSdkRejectsCommit =
     \<lparr>getFirestore = None,
      refError = (\<lambda>collection docId. None),
      autoId = (\<lambda>index. JStr (''auto'' @ showNat index)),
      readError = None,
      writeError = None,
      stageError = (\<lambda>w. None),
      commitError = (\<lambda>ws. Some commitFailure),
      serverTime = JNum 1700000000000\<rparr>"

section \<open>Basic facts\<close>

lemma reqGet_reqSet_same: "reqGet (reqSet req k v) k = v"
  by (simp add: reqGet_def reqSet_def update_conv')

lemma reqGet_reqSet_other: "k' \<noteq> k \<Longrightarrow> reqGet (reqSet req k v) k' = reqGet req k'"
  by (simp add: reqGet_def reqSet_def update_conv')

lemma startsWith_Bearer_Nil: "startsWith ''Bearer '' [] = False"
  by (simp add: startsWith_def)

lemma split_Bearer_bad: "split ''Bearer '' ''Bearer bad'' = [[], ''bad'']"
  by (simp add: split_def startsWith_def)

lemma bearerToken_reqBad: "bearerToken (authorizationOf reqBad) = Some ''bad''"
  by (simp add: bearerToken_def authorizationOf_def reqBad_def reqGet_def split_Bearer_bad startsWith_def)

lemma headers_reqBad: "\<not> nullish (reqGet reqBad ''headers'')"
  by (simp add: reqBad_def reqGet_def nullish_def)

lemma headers_reqNoHeader: "\<not> nullish (reqGet reqNoHeader ''headers'')"
  by (simp add: reqNoHeader_def reqGet_def nullish_def)

section \<open>Token verification middleware: requests without a token\<close>

lemma verifyFirebaseToken_no_token:
  assumes "\<not> nullish (reqGet req ''headers'')"
    and "authorizationOf req = JUndefined \<or> authorizationOf req = JStr h"
    and "bearerToken (authorizationOf req) = None"
  shows "verifyFirebaseToken e sdk checkRevoked True req = (reqSet req ''user'' JNull, Next)"
  using assms
  by (auto simp: verifyFirebaseToken_def bearerToken_def authorizationOf_def Let_def
        startsWith_Bearer_Nil split: jsval.splits list.splits if_splits)

lemma verifyFirebaseToken_with_token:
  assumes "\<not> nullish (reqGet req ''headers'')"
    and "bearerToken (authorizationOf req) = Some idToken"
  shows "verifyFirebaseToken e sdk checkRevoked optional req =
           (let verificationResult = verifyIdToken e sdk idToken checkRevoked
            in if \<not> truthy (getProp verificationResult ''success'')
               then (req, Respond 401 verificationResult)
               else (let req1 = reqSet req ''user'' (getProp verificationResult ''data'');
                         req2 = reqSet req1 ''authTiming'' (JNum (elapsed e))
                     in if nullish (reqGet req2 ''user'')
                        then verifyFirebaseToken_catch e req2
                               (typeError ''Cannot read properties of undefined (reading uid)'')
                        else (req2, Next)))"
  using assms
  by (auto simp: verifyFirebaseToken_def bearerToken_def authorizationOf_def Let_def
        startsWith_Bearer_Nil split: jsval.splits list.splits if_splits)

text \<open>
  C3. A request whose authorization header is absent, or does not start with the bearer
  scheme, is answered 401 with an envelope whose error code is \<open>MISSING_TOKEN\<close> when
  authentication is required; when it is optional the request goes on to the next stage
  with \<open>req.user\<close> set to \<open>null\<close>.
\<close>

theorem verifyFirebaseToken_missing_token:
  assumes "\<not> nullish (reqGet req ''headers'')"
    and "lacksBearer (authorizationOf req)"
  shows "verifyFirebaseToken e sdk checkRevoked False req =
           (req, Respond 401 (FirebaseResponse_unauthorized e ''Authorization token required'' ''MISSING_TOKEN''))
       \<and> getProp (getProp (FirebaseResponse_unauthorized e ''Authorization token required'' ''MISSING_TOKEN'')
                    ''error'') ''code'' = JStr ''MISSING_TOKEN''
       \<and> verifyFirebaseToken e sdk checkRevoked True req = (reqSet req ''user'' JNull, Next)
       \<and> reqGet (reqSet req ''user'' JNull) ''user'' = JNull"
  using assms
  by (auto simp: verifyFirebaseToken_def lacksBearer_def authorizationOf_def Let_def
        FirebaseResponse_unauthorized_def reqGet_reqSet_same startsWith_Bearer_Nil split: jsval.splits)

theorem verifyFirebaseToken_missing_token_witness:
  "\<not> nullish (reqGet reqNoHeader ''headers'')
   \<and> lacksBearer (authorizationOf reqNoHeader)
   \<and> verifyFirebaseToken env0 authSdk0 False False reqNoHeader =
        (reqNoHeader, Respond 401 (FirebaseResponse_unauthorized env0 ''Authorization token required'' ''MISSING_TOKEN''))
   \<and> verifyFirebaseToken env0 authSdk0 False True reqNoHeader = (reqSet reqNoHeader ''user'' JNull, Next)"
proof -
  have b: "lacksBearer (authorizationOf reqNoHeader)"
    by (simp add: lacksBearer_def authorizationOf_def reqNoHeader_def reqGet_def)
  from verifyFirebaseToken_missing_token [OF headers_reqNoHeader b, of env0 authSdk0 False]
  show ?thesis using headers_reqNoHeader b by simp
qed

lemma splitAux_textBefore: "\<exists>rest. splitAux sep acc s = (acc @ textBefore sep s) # rest"
  by (induction sep acc s rule: splitAux.induct) auto

lemma textBefore_Nil_iff: "textBefore sep s = [] \<longleftrightarrow> s = [] \<or> (sep \<noteq> [] \<and> startsWith sep s)"
  by (cases s) auto

lemma textBefore_no_occurrence: "\<not> includesStr sep s \<Longrightarrow> textBefore sep s = s"
  by (induction s) auto

lemma textBefore_prefix: "take (length (textBefore sep s)) s = textBefore sep s"
  by (induction s) auto

lemma split_Bearer_credential:
  assumes "startsWith ''Bearer '' h"
  shows "\<exists>rest. split ''Bearer '' h = [] # textBefore ''Bearer '' (credentialOf h) # rest"
proof -
  from assms obtain c cs where h: "h = c # cs"
    by (cases h) (auto simp: startsWith_Bearer_Nil)
  obtain rest where "splitAux ''Bearer '' [] (credentialOf h)
                       = ([] @ textBefore ''Bearer '' (credentialOf h)) # rest"
    using splitAux_textBefore by blast
  with assms h show ?thesis
    by (simp add: split_def credentialOf_def)
qed

lemma bearerToken_credential:
  assumes "authHeader = JUndefined \<or> authHeader = JStr h"
  shows "bearerToken authHeader =
           (if noUsableToken authHeader then None
            else Some (textBefore ''Bearer '' (credentialOf h)))"
proof (cases "authHeader = JUndefined")
  case True
  then show ?thesis by (simp add: bearerToken_def noUsableToken_def)
next
  case False
  with assms have a: "authHeader = JStr h" by simp
  show ?thesis
  proof (cases "startsWith ''Bearer '' h")
    case False
    with a show ?thesis by (simp add: bearerToken_def noUsableToken_def)
  next
    case True
    then obtain rest where
      s: "split ''Bearer '' h = [] # textBefore ''Bearer '' (credentialOf h) # rest"
      using split_Bearer_credential by blast
    have "textBefore ''Bearer '' (credentialOf h) = []
            \<longleftrightarrow> credentialOf h = [] \<or> startsWith ''Bearer '' (credentialOf h)"
      by (simp add: textBefore_Nil_iff)
    with a True s show ?thesis
      by (simp add: bearerToken_def noUsableToken_def)
  qed
qed

text \<open>
  What optional authentication does with a header, for every request. The request goes on
  with \<open>req.user = null\<close> when the header carries no token (it is absent, has no bearer
  prefix, or nothing stands behind the prefix) or when \<open>Bearer \<close> stands behind the prefix
  again, and only then. Otherwise the token handed to the verification is the credential
  up to its first \<open>Bearer \<close>: it is not empty, it is the whole credential when that holds
  no \<open>Bearer \<close>, and when its verification fails the request is answered 401 with the
  envelope of the failed verification and is left as it was.
\<close>

lemma optionalFirebaseAuth_outcomes:
  assumes "\<not> nullish (reqGet req ''headers'')"
    and "authorizationOf req = JUndefined \<or> authorizationOf req = JStr h"
  shows "(noToken (authorizationOf req) \<longrightarrow> noUsableToken (authorizationOf req))
       \<and> (noUsableToken (authorizationOf req)
          \<longrightarrow> optionalFirebaseAuth e sdk req = (reqSet req ''user'' JNull, Next))
       \<and> (\<not> noUsableToken (authorizationOf req)
          \<longrightarrow> textBefore ''Bearer '' (credentialOf h) \<noteq> []
              \<and> (\<not> includesStr ''Bearer '' (credentialOf h)
                   \<longrightarrow> textBefore ''Bearer '' (credentialOf h) = credentialOf h)
              \<and> (\<not> truthy (getProp (verifyIdToken e sdk (textBefore ''Bearer '' (credentialOf h)) False) ''success'')
                   \<longrightarrow> optionalFirebaseAuth e sdk req =
                         (req, Respond 401 (verifyIdToken e sdk (textBefore ''Bearer '' (credentialOf h)) False))))
       \<and> (snd (optionalFirebaseAuth e sdk req) = Next
            \<and> reqGet (fst (optionalFirebaseAuth e sdk req)) ''user'' = JNull
          \<longrightarrow> noUsableToken (authorizationOf req))"
proof -
  let ?a = "authorizationOf req"
  let ?t = "textBefore ''Bearer '' (credentialOf h)"
  note b = bearerToken_credential [OF assms(2)]
  have 1: "noToken ?a \<longrightarrow> noUsableToken ?a"
    by (auto simp: noToken_def noUsableToken_def split: jsval.splits)
  have 2: "noUsableToken ?a \<longrightarrow> optionalFirebaseAuth e sdk req = (reqSet req ''user'' JNull, Next)"
  proof
    assume "noUsableToken ?a"
    with b have "bearerToken ?a = None" by simp
    from verifyFirebaseToken_no_token [OF assms this]
    show "optionalFirebaseAuth e sdk req = (reqSet req ''user'' JNull, Next)"
      by (simp add: optionalFirebaseAuth_def)
  qed
  have 3: "\<not> noUsableToken ?a \<longrightarrow> ?t \<noteq> []
              \<and> (\<not> includesStr ''Bearer '' (credentialOf h) \<longrightarrow> ?t = credentialOf h)
              \<and> (\<not> truthy (getProp (verifyIdToken e sdk ?t False) ''success'')
                   \<longrightarrow> optionalFirebaseAuth e sdk req = (req, Respond 401 (verifyIdToken e sdk ?t False)))"
  proof (intro impI conjI)
    assume n: "\<not> noUsableToken ?a"
    with assms(2) have h: "?a = JStr h" by (auto simp: noUsableToken_def)
    from n h show "?t \<noteq> []"
      by (simp add: noUsableToken_def textBefore_Nil_iff split: if_splits)
    from n b have s: "bearerToken ?a = Some ?t" by simp
    assume "\<not> truthy (getProp (verifyIdToken e sdk ?t False) ''success'')"
    then show "optionalFirebaseAuth e sdk req = (req, Respond 401 (verifyIdToken e sdk ?t False))"
      using verifyFirebaseToken_with_token [OF assms(1) s, of e sdk False True]
      by (simp add: optionalFirebaseAuth_def)
  next
    assume "\<not> includesStr ''Bearer '' (credentialOf h)"
    then show "?t = credentialOf h" by (rule textBefore_no_occurrence)
  qed
  have 4: "snd (optionalFirebaseAuth e sdk req) = Next
            \<and> reqGet (fst (optionalFirebaseAuth e sdk req)) ''user'' = JNull
          \<longrightarrow> noUsableToken ?a"
  proof
    assume a: "snd (optionalFirebaseAuth e sdk req) = Next
            \<and> reqGet (fst (optionalFirebaseAuth e sdk req)) ''user'' = JNull"
    show "noUsableToken ?a"
    proof (rule ccontr)
      assume "\<not> noUsableToken ?a"
      with b have s: "bearerToken ?a = Some ?t" by simp
      from a verifyFirebaseToken_with_token [OF assms(1) s, of e sdk False True]
      show False
        by (auto simp: optionalFirebaseAuth_def Let_def verifyFirebaseToken_catch_def nullish_def
              reqGet_reqSet_same reqGet_reqSet_other split: if_splits)
    qed
  qed
  from 1 2 3 4 show ?thesis by (intro conjI)
qed

lemma optionalFirebaseAuth_outcomes_examples:
  "\<not> nullish (reqGet reqBad ''headers'')
   \<and> authorizationOf reqBad = JStr ''Bearer bad''
   \<and> \<not> noUsableToken (authorizationOf reqBad)
   \<and> textBefore ''Bearer '' (credentialOf ''Bearer bad'') = ''bad''
   \<and> \<not> truthy (getProp (verifyIdToken env0 authSdk0 ''bad'' False) ''success'')
   \<and> optionalFirebaseAuth env0 authSdk0 reqBad = (reqBad, Respond 401 (verifyIdToken env0 authSdk0 ''bad'' False))
   \<and> noToken (authorizationOf reqNoHeader)
   \<and> noUsableToken (authorizationOf reqNoHeader)
   \<and> optionalFirebaseAuth env0 authSdk0 reqNoHeader = (reqSet reqNoHeader ''user'' JNull, Next)
   \<and> \<not> noToken (authorizationOf reqDoubleBearer)
   \<and> noUsableToken (authorizationOf reqDoubleBearer)
   \<and> optionalFirebaseAuth env0 authSdk0 reqDoubleBearer = (reqSet reqDoubleBearer ''user'' JNull, Next)"
proof -
  have b: "authorizationOf reqBad = JStr ''Bearer bad''"
    by (simp add: reqBad_def reqGet_def authorizationOf_def)
  have u: "\<not> noUsableToken (authorizationOf reqBad)"
    by (simp add: b noUsableToken_def credentialOf_def startsWith_def)
  have t: "textBefore ''Bearer '' (credentialOf ''Bearer bad'') = ''bad''"
    by (simp add: credentialOf_def startsWith_def)
  have d: "\<not> truthy (getProp (verifyIdToken env0 authSdk0 ''bad'' False) ''success'')"
    by (simp add: verifyIdToken_def authSdk0_def expiredError_def verifyIdToken_catch_def
          auth_invalidToken_def FirebaseResponse_unauthorized_def)
  have n: "authorizationOf reqNoHeader = JUndefined"
    by (simp add: reqNoHeader_def reqGet_def authorizationOf_def)
  have nt: "noToken (authorizationOf reqNoHeader)"
    by (simp add: n noToken_def)
  have x: "authorizationOf reqDoubleBearer = JStr ''Bearer Bearer x''"
    by (simp add: reqDoubleBearer_def reqGet_def authorizationOf_def)
  have hx: "\<not> nullish (reqGet reqDoubleBearer ''headers'')"
    by (simp add: reqDoubleBearer_def reqGet_def nullish_def)
  have xn: "\<not> noToken (authorizationOf reqDoubleBearer)"
    by (simp add: x noToken_def credentialOf_def startsWith_def)
  have xu: "noUsableToken (authorizationOf reqDoubleBearer)"
    by (simp add: x noUsableToken_def credentialOf_def startsWith_def)
  note T1 = optionalFirebaseAuth_outcomes [OF headers_reqBad disjI2 [OF b], of env0 authSdk0]
  note T2 = optionalFirebaseAuth_outcomes [OF headers_reqNoHeader disjI1 [OF n], of env0 authSdk0]
  note T3 = optionalFirebaseAuth_outcomes [OF hx disjI2 [OF x], of env0 authSdk0]
  have dd: "\<not> truthy (getProp (verifyIdToken env0 authSdk0
                (textBefore ''Bearer '' (credentialOf ''Bearer bad'')) False) ''success'')"
    by (simp only: t d not_False_eq_True)
  have 1: "optionalFirebaseAuth env0 authSdk0 reqBad =
             (reqBad, Respond 401 (verifyIdToken env0 authSdk0
                (textBefore ''Bearer '' (credentialOf ''Bearer bad'')) False))"
    by (rule T1 [THEN conjunct2, THEN conjunct2, THEN conjunct1, rule_format, OF u,
                 THEN conjunct2, THEN conjunct2, rule_format, OF dd])
  have r1: "optionalFirebaseAuth env0 authSdk0 reqBad = (reqBad, Respond 401 (verifyIdToken env0 authSdk0 ''bad'' False))"
    using 1 by (simp only: t)
  have nu: "noUsableToken (authorizationOf reqNoHeader)"
    by (rule T2 [THEN conjunct1, rule_format, OF nt])
  have 2: "optionalFirebaseAuth env0 authSdk0 reqNoHeader = (reqSet reqNoHeader ''user'' JNull, Next)"
    by (rule T2 [THEN conjunct2, THEN conjunct1, rule_format, OF nu])
  have 3: "optionalFirebaseAuth env0 authSdk0 reqDoubleBearer = (reqSet reqDoubleBearer ''user'' JNull, Next)"
    by (rule T3 [THEN conjunct2, THEN conjunct1, rule_format, OF xu])
  show ?thesis
    by (intro conjI headers_reqBad b u t d r1 nt nu 2 xn xu 3)
qed

text \<open>
  C10 fails at the header \<open>Bearer Bearer x\<close>. The header is present and has the prefix,
  and the credential \<open>Bearer x\<close> behind it is not empty and does not verify; yet optional
  authentication lets the request go on with \<open>req.user = null\<close>, where the claim has it
  answered 401: \<open>split('Bearer ')[1]\<close> is the text between the first two occurrences of
  \<open>Bearer \<close>, here the empty string.
\<close>

theorem optionalFirebaseAuth_double_bearer:
  "authorizationOf reqDoubleBearer = JStr ''Bearer Bearer x''
   \<and> \<not> noToken (authorizationOf reqDoubleBearer)
   \<and> credentialOf ''Bearer Bearer x'' = ''Bearer x''
   \<and> \<not> truthy (getProp (verifyIdToken env0 authSdk0 ''Bearer x'' False) ''success'')
   \<and> split ''Bearer '' ''Bearer Bearer x'' = [[], [], ''x'']
   \<and> optionalFirebaseAuth env0 authSdk0 reqDoubleBearer = (reqSet reqDoubleBearer ''user'' JNull, Next)"
proof -
  have x: "authorizationOf reqDoubleBearer = JStr ''Bearer Bearer x''"
    by (simp add: reqDoubleBearer_def reqGet_def authorizationOf_def)
  have hx: "\<not> nullish (reqGet reqDoubleBearer ''headers'')"
    by (simp add: reqDoubleBearer_def reqGet_def nullish_def)
  have xn: "\<not> noToken (authorizationOf reqDoubleBearer)"
    by (simp add: x noToken_def credentialOf_def startsWith_def)
  have c: "credentialOf ''Bearer Bearer x'' = ''Bearer x''"
    by (simp add: credentialOf_def)
  have d: "\<not> truthy (getProp (verifyIdToken env0 authSdk0 ''Bearer x'' False) ''success'')"
    by (simp add: verifyIdToken_def authSdk0_def expiredError_def verifyIdToken_catch_def
          auth_invalidToken_def FirebaseResponse_unauthorized_def)
  have s: "split ''Bearer '' ''Bearer Bearer x'' = [[], [], ''x'']"
    by (simp add: split_def startsWith_def)
  have t: "bearerToken (authorizationOf reqDoubleBearer) = None"
    by (simp add: x bearerToken_def s startsWith_def)
  have 3: "optionalFirebaseAuth env0 authSdk0 reqDoubleBearer = (reqSet reqDoubleBearer ''user'' JNull, Next)"
    using verifyFirebaseToken_no_token [OF hx disjI2 [OF x] t, of env0 authSdk0 False]
    by (simp add: optionalFirebaseAuth_def)
  show ?thesis
    by (intro conjI x xn c d s 3)
qed

section \<open>Provider errors of token verification\<close>

text \<open>
  C4. When the provider rejects the token passed to \<open>verifyIdToken\<close>, the service returns:
  for the codes of an expired or an invalid token, the unauthorized envelope with code
  \<open>INVALID_TOKEN\<close>; for the code of a revoked token, the unauthorized envelope with code
  \<open>TOKEN_REVOKED\<close>; for any other error, the generic error envelope, whose code is the
  provider's code (\<open>UNKNOWN_ERROR\<close> when the error has none). Each of them has
  \<open>success\<close> false, and the token-verification middleware answers it with status 401.
\<close>

theorem verifyIdToken_provider_errors:
  assumes "getAuth sdk = None" and "idToken \<noteq> []"
    and "sdkVerifyIdToken sdk idToken checkRevoked = Inl err"
  shows "(ecode err = JStr ''auth/id-token-expired'' \<or> ecode err = JStr ''auth/invalid-id-token''
          \<longrightarrow> verifyIdToken e sdk idToken checkRevoked
                = FirebaseResponse_unauthorized e ''Invalid or expired token'' ''INVALID_TOKEN''
              \<and> getProp (getProp (verifyIdToken e sdk idToken checkRevoked) ''error'') ''code''
                = JStr ''INVALID_TOKEN'')
       \<and> (ecode err = JStr ''auth/id-token-revoked''
          \<longrightarrow> verifyIdToken e sdk idToken checkRevoked
                = FirebaseResponse_unauthorized e ''Token has been revoked'' ''TOKEN_REVOKED''
              \<and> getProp (getProp (verifyIdToken e sdk idToken checkRevoked) ''error'') ''code''
                = JStr ''TOKEN_REVOKED'')
       \<and> (ecode err \<noteq> JStr ''auth/id-token-expired'' \<and> ecode err \<noteq> JStr ''auth/invalid-id-token''
            \<and> ecode err \<noteq> JStr ''auth/id-token-revoked''
          \<longrightarrow> verifyIdToken e sdk idToken checkRevoked
                = FirebaseResponse_error e err ''verifyIdToken'' [] (Some (elapsed e))
              \<and> getProp (getProp (verifyIdToken e sdk idToken checkRevoked) ''error'') ''code''
                = (if truthy (ecode err) then ecode err else JStr ''UNKNOWN_ERROR''))
       \<and> getProp (verifyIdToken e sdk idToken checkRevoked) ''success'' = JBool False
       \<and> (\<forall>req optional. \<not> nullish (reqGet req ''headers'')
              \<and> bearerToken (authorizationOf req) = Some idToken
            \<longrightarrow> verifyFirebaseToken e sdk checkRevoked optional req
                  = (req, Respond 401 (verifyIdToken e sdk idToken checkRevoked)))"
proof -
  have s: "getProp (verifyIdToken e sdk idToken checkRevoked) ''success'' = JBool False"
    using assms
    by (simp add: verifyIdToken_def verifyIdToken_catch_def auth_invalidToken_def
          FirebaseResponse_unauthorized_def FirebaseResponse_error_def)
  have m: "verifyFirebaseToken e sdk checkRevoked optional req
             = (req, Respond 401 (verifyIdToken e sdk idToken checkRevoked))"
    if "\<not> nullish (reqGet req ''headers'') \<and> bearerToken (authorizationOf req) = Some idToken"
    for req optional
    using verifyFirebaseToken_with_token [of req idToken e sdk checkRevoked optional] that s
    by simp
  have c: "verifyIdToken e sdk idToken checkRevoked = verifyIdToken_catch e err"
    using assms by (simp add: verifyIdToken_def)
  have k: "getProp (getProp (FirebaseResponse_error e err ''verifyIdToken'' [] (Some (elapsed e))) ''error'') ''code''
            = (if truthy (ecode err) then ecode err else JStr ''UNKNOWN_ERROR'')"
    by (simp add: FirebaseResponse_error_def errorInfo_def spread_def AList.merge_def jsor_def)
  show ?thesis
    using s m k
    by (simp add: c verifyIdToken_catch_def auth_invalidToken_def FirebaseResponse_unauthorized_def)
qed

theorem verifyIdToken_provider_errors_witness:
  "getAuth authSdk0 = None
   \<and> sdkVerifyIdToken authSdk0 ''bad'' False = Inl expiredError
   \<and> verifyIdToken env0 authSdk0 ''bad'' False
       = FirebaseResponse_unauthorized env0 ''Invalid or expired token'' ''INVALID_TOKEN''
   \<and> sdkVerifyIdToken authSdk0 ''revoked'' True = Inl revokedError
   \<and> verifyIdToken env0 authSdk0 ''revoked'' True
       = FirebaseResponse_unauthorized env0 ''Token has been revoked'' ''TOKEN_REVOKED''
   \<and> sdkVerifyIdToken authSdk0 ''garbled'' False = Inl argumentError
   \<and> getProp (getProp (verifyIdToken env0 authSdk0 ''garbled'' False) ''error'') ''code''
       = JStr ''auth/argument-error''
   \<and> verifyFirebaseToken env0 authSdk0 False False reqBad
       = (reqBad, Respond 401 (verifyIdToken env0 authSdk0 ''bad'' False))"
proof -
  have g: "getAuth authSdk0 = None" by (simp add: authSdk0_def)
  have n1: "''bad'' \<noteq> []" and n2: "''revoked'' \<noteq> []" and n3: "''garbled'' \<noteq> []" by simp_all
  have p1: "sdkVerifyIdToken authSdk0 ''bad'' False = Inl expiredError" by (simp add: authSdk0_def)
  have p2: "sdkVerifyIdToken authSdk0 ''revoked'' True = Inl revokedError" by (simp add: authSdk0_def)
  have p3: "sdkVerifyIdToken authSdk0 ''garbled'' False = Inl argumentError" by (simp add: authSdk0_def)
  note T1 = verifyIdToken_provider_errors [OF g n1 p1, of env0]
  note T2 = verifyIdToken_provider_errors [OF g n2 p2, of env0]
  note T3 = verifyIdToken_provider_errors [OF g n3 p3, of env0]
  have c1: "ecode expiredError = JStr ''auth/id-token-expired'' \<or> ecode expiredError = JStr ''auth/invalid-id-token''"
    by (simp add: expiredError_def)
  have c2: "ecode revokedError = JStr ''auth/id-token-revoked''"
    by (simp add: revokedError_def)
  have c3: "ecode argumentError \<noteq> JStr ''auth/id-token-expired'' \<and> ecode argumentError \<noteq> JStr ''auth/invalid-id-token''
            \<and> ecode argumentError \<noteq> JStr ''auth/id-token-revoked''"
    by (simp add: argumentError_def)
  have 1: "verifyIdToken env0 authSdk0 ''bad'' False
       = FirebaseResponse_unauthorized env0 ''Invalid or expired token'' ''INVALID_TOKEN''"
    by (rule T1 [THEN conjunct1, rule_format, OF c1, THEN conjunct1])
  have 2: "verifyIdToken env0 authSdk0 ''revoked'' True
       = FirebaseResponse_unauthorized env0 ''Token has been revoked'' ''TOKEN_REVOKED''"
    by (rule T2 [THEN conjunct2, THEN conjunct1, rule_format, OF c2, THEN conjunct1])
  have 3: "getProp (getProp (verifyIdToken env0 authSdk0 ''garbled'' False) ''error'') ''code''
       = JStr ''auth/argument-error''"
    using T3 [THEN conjunct2, THEN conjunct2, THEN conjunct1, rule_format, OF c3, THEN conjunct2]
    by (simp add: argumentError_def)
  have 4: "verifyFirebaseToken env0 authSdk0 False False reqBad
       = (reqBad, Respond 401 (verifyIdToken env0 authSdk0 ''bad'' False))"
    by (rule T1 [THEN conjunct2, THEN conjunct2, THEN conjunct2, THEN conjunct2, rule_format,
          OF conjI [OF headers_reqBad bearerToken_reqBad]])
  show ?thesis
    by (intro conjI g p1 1 p2 2 p3 3 4)
qed

section \<open>Validation middleware: what it leaves alone\<close>

lemma validateFirebase_unfold:
  "validateFirebase e schema source req =
     (case schema (reqGet req source) of
        ValidationThrows validationError \<Rightarrow>
          (req, Respond 500
             (FirebaseResponse_error e validationError ''validation middleware'' [] (Some (elapsed e))))
      | ValidationError details \<Rightarrow>
          (req, Respond 400
             (FirebaseResponse_validation e (JArr (map validationErrorOf details)) ''Validation failed''))
      | ValidationValue v \<Rightarrow>
          (if nullish v
           then (reqSet req source v, Respond 500
                   (FirebaseResponse_error e
                      (typeError ''Cannot convert undefined or null to object'')
                      ''validation middleware'' [] (Some (elapsed e))))
           else (reqSet req source v, Next)))"
proof -
  have d: "(if source = ''body'' then reqGet req ''body''
            else if source = ''params'' then reqGet req ''params''
            else if source = ''query'' then reqGet req ''query''
            else if source = ''headers'' then reqGet req ''headers''
            else reqGet req source) = reqGet req source"
    by simp
  have s: "\<And>v. (if source = ''body'' then reqSet req ''body'' v
            else if source = ''params'' then reqSet req ''params'' v
            else if source = ''query'' then reqSet req ''query'' v
            else if source = ''headers'' then reqSet req ''headers'' v
            else reqSet req source v) = reqSet req source v"
    by simp
  show ?thesis
    unfolding validateFirebase_def Let_def d s by (rule refl)
qed

text \<open>
  The four ways the middleware ends, for every schema, part and request. No part other
  than \<open>source\<close> ever changes. The schema reports errors: 400, the request as it was. The
  schema throws: 500, the request as it was. The schema accepts with a value that is
  neither \<open>null\<close> nor \<open>undefined\<close>: the part is replaced and the request goes on. The schema
  accepts with \<open>null\<close> or \<open>undefined\<close>: the part is replaced all the same, and the answer
  is 500.
\<close>

lemma validateFirebase_other_parts:
  "k \<noteq> source \<Longrightarrow> reqGet (fst (validateFirebase e schema source req)) k = reqGet req k"
  by (simp add: validateFirebase_unfold reqGet_reqSet_other split: validation.splits)

lemma validateFirebase_outcomes:
  "(\<forall>details. schema (reqGet req source) = ValidationError details
        \<longrightarrow> validateFirebase e schema source req
            = (req, Respond 400 (FirebaseResponse_validation e (JArr (map validationErrorOf details)) ''Validation failed'')))
   \<and> (\<forall>err. schema (reqGet req source) = ValidationThrows err
        \<longrightarrow> validateFirebase e schema source req
            = (req, Respond 500 (FirebaseResponse_error e err ''validation middleware'' [] (Some (elapsed e)))))
   \<and> (\<forall>v. schema (reqGet req source) = ValidationValue v \<and> \<not> nullish v
        \<longrightarrow> validateFirebase e schema source req = (reqSet req source v, Next)
          \<and> reqGet (reqSet req source v) source = v)
   \<and> (\<forall>v. schema (reqGet req source) = ValidationValue v \<and> nullish v
        \<longrightarrow> validateFirebase e schema source req
            = (reqSet req source v,
               Respond 500 (FirebaseResponse_error e
                              (typeError ''Cannot convert undefined or null to object'')
                              ''validation middleware'' [] (Some (elapsed e))))
          \<and> reqGet (reqSet req source v) source = v)"
  by (simp add: validateFirebase_unfold reqGet_reqSet_same)

text \<open>
  C9 fails where the schema accepts with the value \<open>undefined\<close>. A request without a query
  string has the query \<open>{}\<close>; under a schema that takes the empty object for no value the
  middleware replaces the query by \<open>undefined\<close> and then answers 500 with the error
  envelope: a failure that has modified the part. Under a schema for an object that is
  not required, as every schema of the routes is, a request without a body is accepted
  by the schema and answered 500 as well.
\<close>

theorem validateFirebase_nullish_value:
  "reqGet reqEmptyQuery ''query'' = JObj []
   \<and> schemaEmpty (JObj []) = ValidationValue JUndefined
   \<and> validateFirebase env0 schemaEmpty ''query'' reqEmptyQuery
       = (reqSet reqEmptyQuery ''query'' JUndefined,
          Respond 500 (FirebaseResponse_error env0
                         (typeError ''Cannot convert undefined or null to object'')
                         ''validation middleware'' [] (Some (elapsed env0))))
   \<and> reqGet (fst (validateFirebase env0 schemaEmpty ''query'' reqEmptyQuery)) ''query'' = JUndefined
   \<and> getProp (FirebaseResponse_error env0
                 (typeError ''Cannot convert undefined or null to object'')
                 ''validation middleware'' [] (Some (elapsed env0))) ''success'' = JBool False
   \<and> schemaOptional (reqGet reqNoHeader ''body'') = ValidationValue JUndefined
   \<and> snd (validateFirebase env0 schemaOptional ''body'' reqNoHeader)
       = Respond 500 (FirebaseResponse_error env0
                        (typeError ''Cannot convert undefined or null to object'')
                        ''validation middleware'' [] (Some (elapsed env0)))"
proof -
  have q: "reqGet reqEmptyQuery ''query'' = JObj []"
    by (simp add: reqEmptyQuery_def reqGet_def)
  have s: "schemaEmpty (JObj []) = ValidationValue JUndefined"
    by (simp add: schemaEmpty_def)
  have 1: "validateFirebase env0 schemaEmpty ''query'' reqEmptyQuery
       = (reqSet reqEmptyQuery ''query'' JUndefined,
          Respond 500 (FirebaseResponse_error env0
                         (typeError ''Cannot convert undefined or null to object'')
                         ''validation middleware'' [] (Some (elapsed env0))))"
    by (simp add: validateFirebase_unfold q s nullish_def)
  have 2: "reqGet (fst (validateFirebase env0 schemaEmpty ''query'' reqEmptyQuery)) ''query'' = JUndefined"
    by (simp add: 1 reqGet_reqSet_same)
  have 3: "getProp (FirebaseResponse_error env0
                 (typeError ''Cannot convert undefined or null to object'')
                 ''validation middleware'' [] (Some (elapsed env0))) ''success'' = JBool False"
    by (simp add: FirebaseResponse_error_def)
  have b: "reqGet reqNoHeader ''body'' = JUndefined"
    by (simp add: reqNoHeader_def reqGet_def)
  have o: "schemaOptional (reqGet reqNoHeader ''body'') = ValidationValue JUndefined"
    by (simp add: b schemaOptional_def)
  have 4: "snd (validateFirebase env0 schemaOptional ''body'' reqNoHeader)
       = Respond 500 (FirebaseResponse_error env0
                        (typeError ''Cannot convert undefined or null to object'')
                        ''validation middleware'' [] (Some (elapsed env0)))"
    by (simp add: validateFirebase_unfold o nullish_def)
  show ?thesis
    by (intro conjI q s 1 2 3 o 4)
qed

section \<open>The shapes of the envelopes\<close>

lemma hasProp_errorInfo:
  "hasProp (JObj (errorInfo e error operation additionalContext timing)) ''code''
   \<and> hasProp (JObj (errorInfo e error operation additionalContext timing)) ''message''"
  by (simp add: hasProp_def errorInfo_def spread_def dom_merge)

lemma no_error_in_success:
  "\<not> hasProp (FirebaseResponse_success e data message timing meta) ''error''"
  by (auto simp: hasProp_def FirebaseResponse_success_def timingField_def split: option.splits if_splits)

text \<open>
  C6, as the code has it. Every envelope a constructor of \<open>FirebaseResponse\<close> builds has
  a boolean field \<open>success\<close>. Those of \<open>success\<close> and \<open>paginated\<close> have \<open>success\<close>
  true, the message, and no \<open>error\<close> field. Those of \<open>unauthorized\<close>, \<open>forbidden\<close> and
  \<open>notFound\<close> have \<open>success\<close> false, a message at the top level, and an \<open>error\<close> object
  with a code and a type. Those of \<open>error\<close> have \<open>success\<close> false and an \<open>error\<close> object
  with a code and a message. Those of \<open>validation\<close> have \<open>success\<close> false, no \<open>error\<close>
  field, and at the top level a message, the array of errors and the type
  \<open>VALIDATION_ERROR\<close>. Those of \<open>batch\<close> have \<open>success\<close> true exactly when no result
  failed, a summary and the results, and no \<open>error\<close> field.
\<close>

theorem FirebaseResponse_shapes:
  "(getProp (FirebaseResponse_success e data message timing meta) ''success'' = JBool True
      \<and> getProp (FirebaseResponse_success e data message timing meta) ''message'' = JStr message
      \<and> \<not> hasProp (FirebaseResponse_success e data message timing meta) ''error'')
   \<and> (getProp (FirebaseResponse_paginated e items pagination message) ''success'' = JBool True
      \<and> getProp (FirebaseResponse_paginated e items pagination message) ''message'' = JStr message
      \<and> \<not> hasProp (FirebaseResponse_paginated e items pagination message) ''error'')
   \<and> (getProp (FirebaseResponse_unauthorized e message code) ''success'' = JBool False
      \<and> getProp (FirebaseResponse_unauthorized e message code) ''message'' = JStr message
      \<and> getProp (getProp (FirebaseResponse_unauthorized e message code) ''error'') ''code'' = JStr code
      \<and> getProp (getProp (FirebaseResponse_unauthorized e message code) ''error'') ''type''
          = JStr ''AUTHENTICATION_ERROR'')
   \<and> (getProp (FirebaseResponse_forbidden e message code) ''success'' = JBool False
      \<and> getProp (FirebaseResponse_forbidden e message code) ''message'' = JStr message
      \<and> getProp (getProp (FirebaseResponse_forbidden e message code) ''error'') ''code'' = JStr code
      \<and> getProp (getProp (FirebaseResponse_forbidden e message code) ''error'') ''type''
          = JStr ''AUTHORIZATION_ERROR'')
   \<and> (getProp (FirebaseResponse_notFound e resource identifier) ''success'' = JBool False
      \<and> hasProp (FirebaseResponse_notFound e resource identifier) ''message''
      \<and> getProp (getProp (FirebaseResponse_notFound e resource identifier) ''error'') ''code''
          = JStr ''NOT_FOUND''
      \<and> getProp (getProp (FirebaseResponse_notFound e resource identifier) ''error'') ''type''
          = JStr ''RESOURCE_ERROR'')
   \<and> (getProp (FirebaseResponse_error e error operation additionalContext timing) ''success'' = JBool False
      \<and> isObj (getProp (FirebaseResponse_error e error operation additionalContext timing) ''error'')
      \<and> hasProp (getProp (FirebaseResponse_error e error operation additionalContext timing) ''error'') ''code''
      \<and> hasProp (getProp (FirebaseResponse_error e error operation additionalContext timing) ''error'') ''message'')
   \<and> (getProp (FirebaseResponse_validation e errors message) ''success'' = JBool False
      \<and> \<not> hasProp (FirebaseResponse_validation e errors message) ''error''
      \<and> getProp (FirebaseResponse_validation e errors message) ''message'' = JStr message
      \<and> getProp (FirebaseResponse_validation e errors message) ''type'' = JStr ''VALIDATION_ERROR''
      \<and> (case getProp (FirebaseResponse_validation e errors message) ''errors'' of
            JArr xs \<Rightarrow> True | _ \<Rightarrow> False))
   \<and> (getProp (FirebaseResponse_batch e rate results operation) ''success''
          = JBool (failed results = [])
      \<and> \<not> hasProp (FirebaseResponse_batch e rate results operation) ''error''
      \<and> hasProp (FirebaseResponse_batch e rate results operation) ''summary''
      \<and> getProp (FirebaseResponse_batch e rate results operation) ''results'' = JArr results)"
proof (intro conjI)
  show "\<not> hasProp (FirebaseResponse_success e data message timing meta) ''error''"
    by (rule no_error_in_success)
  show "hasProp (getProp (FirebaseResponse_error e error operation additionalContext timing) ''error'') ''code''"
    using hasProp_errorInfo [of e error operation additionalContext timing]
    by (simp add: FirebaseResponse_error_def)
  show "hasProp (getProp (FirebaseResponse_error e error operation additionalContext timing) ''error'') ''message''"
    using hasProp_errorInfo [of e error operation additionalContext timing]
    by (simp add: FirebaseResponse_error_def)
  show "case getProp (FirebaseResponse_validation e errors message) ''errors'' of
            JArr xs \<Rightarrow> True | _ \<Rightarrow> False"
    by (simp add: FirebaseResponse_validation_def split: jsval.splits)
qed (simp_all add: FirebaseResponse_success_def FirebaseResponse_paginated_def
      FirebaseResponse_unauthorized_def FirebaseResponse_forbidden_def FirebaseResponse_notFound_def
      FirebaseResponse_error_def FirebaseResponse_validation_def FirebaseResponse_batch_def
      hasProp_def isObj_def Let_def)

theorem FirebaseResponse_shapes_witness:
  "getProp (FirebaseResponse_validation env0 (JArr []) ''Validation failed'') ''success'' = JBool False
   \<and> \<not> hasProp (FirebaseResponse_validation env0 (JArr []) ''Validation failed'') ''error''
   \<and> getProp (FirebaseResponse_success env0 JNull ''ok'' None []) ''success'' = JBool True"
  using FirebaseResponse_shapes [where e = env0 and errors = "JArr []" and message = "''Validation failed''"]
    FirebaseResponse_shapes [where e = env0 and data = JNull and message = "''ok''" and timing = None and meta = "[]"]
  by simp

text \<open>
  C6 as it is stated fails: the envelope of \<open>validation\<close> has \<open>success\<close> false and no
  \<open>error\<close> field at all, and so has the envelope of \<open>batch\<close> when a result failed; the
  \<open>error\<close> object of \<open>error\<close> has no type, and that of \<open>unauthorized\<close> has no message.
  None of the four has either shape.
\<close>

theorem FirebaseResponse_shapes_counterexample:
  "\<not> (successShape (FirebaseResponse_validation env0 (JArr []) ''Validation failed'')
        \<or> failureShape (FirebaseResponse_validation env0 (JArr []) ''Validation failed''))
   \<and> \<not> hasProp (FirebaseResponse_validation env0 (JArr []) ''Validation failed'') ''error''
   \<and> \<not> (successShape (FirebaseResponse_batch env0 rate0 [JObj [(''success'', JBool False)]] ''batch operations'')
        \<or> failureShape (FirebaseResponse_batch env0 rate0 [JObj [(''success'', JBool False)]] ''batch operations''))
   \<and> \<not> (successShape (FirebaseResponse_error env0 expiredError ''verifyIdToken'' [] None)
        \<or> failureShape (FirebaseResponse_error env0 expiredError ''verifyIdToken'' [] None))
   \<and> \<not> (successShape (FirebaseResponse_unauthorized env0 ''Authorization token required'' ''MISSING_TOKEN'')
        \<or> failureShape (FirebaseResponse_unauthorized env0 ''Authorization token required'' ''MISSING_TOKEN''))"
  by (simp add: successShape_def failureShape_def FirebaseResponse_validation_def
        FirebaseResponse_batch_def FirebaseResponse_error_def FirebaseResponse_unauthorized_def
        errorInfo_def spread_def AList.merge_def timingField_def env0_def
        hasProp_def isObj_def failed_def)

section \<open>Hard delete, twice\<close>

lemma deleteDocument_success:
  assumes "deleteDocument e sdk db collection docId True userId = (db1, r1)"
    and "truthy (getProp r1 ''success'')"
  shows "db1 = db((collection, docId) := None)"
  using assms
  by (auto simp: deleteDocument_def Let_def FirebaseResponse_error_def document_notFound_def
        FirebaseResponse_notFound_def split: option.splits)

lemma deleteDocument_missing:
  assumes "db (collection, docId) = None"
  shows "getProp (snd (deleteDocument e sdk db collection docId hardDelete userId)) ''success'' = JBool False"
    and "getFirestore sdk = None \<and> refError sdk collection (Some docId) = None \<and> readError sdk = None
         \<Longrightarrow> deleteDocument e sdk db collection docId hardDelete userId
             = (db, document_notFound e collection docId)"
  using assms
  by (auto simp: deleteDocument_def Let_def FirebaseResponse_error_def document_notFound_def
        FirebaseResponse_notFound_def split: option.splits)

text \<open>
  C8. After a hard delete of a document that returned a success envelope, the document is
  gone from the store, and a second hard delete of the same document never returns a
  success envelope: when the store answers the read, it returns the not-found envelope
  (code \<open>NOT_FOUND\<close>), and the handler of the delete route answers it with status 404.
\<close>

theorem hardDelete_twice:
  assumes "deleteDocument e1 sdk1 db collection docId True userId1 = (db1, r1)"
    and "truthy (getProp r1 ''success'')"
  shows "db1 (collection, docId) = None
       \<and> getProp (snd (deleteDocument e2 sdk2 db1 collection docId True userId2)) ''success'' = JBool False
       \<and> (getFirestore sdk2 = None \<and> refError sdk2 collection (Some docId) = None \<and> readError sdk2 = None
          \<longrightarrow> deleteDocument e2 sdk2 db1 collection docId True userId2
                = (db1, document_notFound e2 collection docId)
              \<and> getProp (getProp (document_notFound e2 collection docId) ''error'') ''code'' = JStr ''NOT_FOUND'')
       \<and> (\<forall>req. \<not> nullish (reqGet req ''params'') \<and> \<not> nullish (reqGet req ''query'')
                \<and> \<not> nullish (reqGet req ''user'')
                \<and> getProp (reqGet req ''params'') ''collection'' = collection
                \<and> getProp (reqGet req ''params'') ''id'' = docId
                \<and> truthy (getProp (reqGet req ''query'') ''hardDelete'')
          \<longrightarrow> snd (deleteDocumentHandler e2 sdk2 db1 req)
                = Respond 404 (snd (deleteDocument e2 sdk2 db1 collection docId True
                                      (getProp (reqGet req ''user'') ''uid''))))"
proof -
  have gone: "db1 (collection, docId) = None"
    using deleteDocument_success [OF assms] by simp
  have nf: "getProp (getProp (document_notFound e2 collection docId) ''error'') ''code'' = JStr ''NOT_FOUND''"
    by (simp add: document_notFound_def FirebaseResponse_notFound_def Let_def)
  have h: "snd (deleteDocumentHandler e2 sdk2 db1 req)
             = Respond 404 (snd (deleteDocument e2 sdk2 db1 collection docId True
                                   (getProp (reqGet req ''user'') ''uid'')))"
    if "\<not> nullish (reqGet req ''params'') \<and> \<not> nullish (reqGet req ''query'')
                \<and> \<not> nullish (reqGet req ''user'')
                \<and> getProp (reqGet req ''params'') ''collection'' = collection
                \<and> getProp (reqGet req ''params'') ''id'' = docId
                \<and> truthy (getProp (reqGet req ''query'') ''hardDelete'')" for req
    using that deleteDocument_missing(1) [where db = db1 and collection = collection and docId = docId
        and e = e2 and sdk = sdk2 and hardDelete = True and userId = "getProp (reqGet req ''user'') ''uid''", OF gone]
    by (auto simp: deleteDocumentHandler_def Let_def split: prod.splits)
  show ?thesis
    using gone nf h deleteDocument_missing [where db = db1 and collection = collection and docId = docId
        and e = e2 and sdk = sdk2 and hardDelete = True and userId = userId2, OF gone] by simp
qed

theorem hardDelete_twice_witness:
  "truthy (getProp (snd (deleteDocument env0 fsSdk0 db0 (JStr ''notes'') (JStr ''n1'') True (JStr ''u1''))) ''success'')
   \<and> deleteDocument env0 fsSdk0 (fst (deleteDocument env0 fsSdk0 db0 (JStr ''notes'') (JStr ''n1'') True (JStr ''u1'')))
         (JStr ''notes'') (JStr ''n1'') True (JStr ''u1'')
       = (fst (deleteDocument env0 fsSdk0 db0 (JStr ''notes'') (JStr ''n1'') True (JStr ''u1'')),
          document_notFound env0 (JStr ''notes'') (JStr ''n1''))
   \<and> snd (deleteDocumentHandler env0 fsSdk0
            (fst (deleteDocument env0 fsSdk0 db0 (JStr ''notes'') (JStr ''n1'') True (JStr ''u1''))) reqDelete)
       = Respond 404 (document_notFound env0 (JStr ''notes'') (JStr ''n1''))"
proof -
  let ?first = "deleteDocument env0 fsSdk0 db0 (JStr ''notes'') (JStr ''n1'') True (JStr ''u1'')"
  have p: "?first = (fst ?first, snd ?first)" by simp
  have s: "truthy (getProp (snd ?first) ''success'')"
    by (simp add: deleteDocument_def fsSdk0_def db0_def document_deleted_def FirebaseResponse_success_def)
  note T = hardDelete_twice [OF p s, of env0 fsSdk0 "JStr ''u1''"]
  have ok: "getFirestore fsSdk0 = None \<and> refError fsSdk0 (JStr ''notes'') (Some (JStr ''n1'')) = None
            \<and> readError fsSdk0 = None"
    by (simp add: fsSdk0_def)
  have r: "\<not> nullish (reqGet reqDelete ''params'') \<and> \<not> nullish (reqGet reqDelete ''query'')
                \<and> \<not> nullish (reqGet reqDelete ''user'')
                \<and> getProp (reqGet reqDelete ''params'') ''collection'' = JStr ''notes''
                \<and> getProp (reqGet reqDelete ''params'') ''id'' = JStr ''n1''
                \<and> truthy (getProp (reqGet reqDelete ''query'') ''hardDelete'')"
    by (simp add: reqDelete_def reqGet_def nullish_def)
  have u: "getProp (reqGet reqDelete ''user'') ''uid'' = JStr ''u1''"
    by (simp add: reqDelete_def reqGet_def)
  have 1: "deleteDocument env0 fsSdk0 (fst ?first) (JStr ''notes'') (JStr ''n1'') True (JStr ''u1'')
       = (fst ?first, document_notFound env0 (JStr ''notes'') (JStr ''n1''))"
    by (rule T [THEN conjunct2, THEN conjunct2, THEN conjunct1, rule_format, OF ok, THEN conjunct1])
  have 2: "snd (deleteDocumentHandler env0 fsSdk0 (fst ?first) reqDelete)
       = Respond 404 (document_notFound env0 (JStr ''notes'') (JStr ''n1''))"
    using T [THEN conjunct2, THEN conjunct2, THEN conjunct2, rule_format, OF r] u 1 by simp
  show ?thesis
    by (intro conjI s 1 2)
qed

section \<open>Batches\<close>

lemma batch_fields:
  "getProp (FirebaseResponse_batch e rate results operation) ''success'' = JBool (failed results = [])
   \<and> getProp (getProp (FirebaseResponse_batch e rate results operation) ''summary'') ''successful''
       = JNum (int (length (successful results)))
   \<and> getProp (getProp (FirebaseResponse_batch e rate results operation) ''summary'') ''failed''
       = JNum (int (length (failed results)))
   \<and> getProp (getProp (FirebaseResponse_batch e rate results operation) ''summary'') ''total''
       = JNum (int (length results))
   \<and> getProp (FirebaseResponse_batch e rate results operation) ''results'' = JArr results"
  by (simp add: FirebaseResponse_batch_def)

lemma stageOp_success:
  "getProp (snd (stageOp sdk index operation)) ''success'' = JBool (cleanStage sdk index operation)"
  by (auto simp: cleanStage_def stageOp_def Let_def split: option.splits)

lemma stageOp_writes:
  "fst (stageOp sdk index operation)
     = (if cleanStage sdk index operation then [writeOf sdk index operation] else [])"
  by (auto simp: cleanStage_def stageOp_def writeOf_def Let_def split: option.splits)

lemma stageAll_writes: "concat (map fst (stageAll sdk operations)) = stagedWrites sdk operations"
proof -
  have "concat (map fst (map (\<lambda>(index, operation). stageOp sdk index operation) xs))
          = map (\<lambda>(index, operation). writeOf sdk index operation)
              (filter (\<lambda>(index, operation). cleanStage sdk index operation) xs)" for xs
    by (induction xs) (auto simp: stageOp_writes)
  then show ?thesis by (simp add: stageAll_def stagedWrites_def cleanOps_def)
qed

lemma stageAll_nth:
  "i < length operations \<Longrightarrow> map snd (stageAll sdk operations) ! i = snd (stageOp sdk i (operations ! i))"
  by (simp add: stageAll_def nth_enumerate_eq)

lemma stageAll_successful:
  "length (successful (map snd (stageAll sdk operations))) = length (cleanOps sdk operations)"
proof -
  have "length (filter (\<lambda>r. truthy (getProp r ''success''))
                  (map snd (map (\<lambda>(index, operation). stageOp sdk index operation) xs)))
          = length (filter (\<lambda>(index, operation). cleanStage sdk index operation) xs)" for xs
    by (induction xs) (auto simp: stageOp_success)
  then show ?thesis by (simp add: stageAll_def successful_def cleanOps_def)
qed

lemma successful_failed: "length (successful results) + length (failed results) = length results"
  by (simp add: successful_def failed_def sum_length_filter_compl)

lemma cleanOps_le: "length (cleanOps sdk operations) \<le> length operations"
proof -
  have "length (cleanOps sdk operations) \<le> length (List.enumerate 0 operations)"
    unfolding cleanOps_def by (rule length_filter_le)
  then show ?thesis by simp
qed

text \<open>
  C5, amended. Take a batch whose operations are objects, such as two valid creates and
  one delete of an id that does not exist. When the store accepts the commit of the
  staged writes, the envelope lists one result for each operation, with \<open>success\<close> true
  exactly for the operations that staged their write (a delete does so whether or not
  the document exists: the service does not look); its top-level \<open>success\<close> is true
  exactly when no listed result failed, and \<open>summary.successful\<close> and \<open>summary.failed\<close>
  are the numbers of listed results with \<open>success\<close> true and false, that is of the
  operations that staged their write and of those that did not. When the store rejects
  the commit, the envelope is the generic error envelope: \<open>success\<close> is false and there is
  no summary, whatever the operations did.
\<close>

theorem batchOperations_counts:
  assumes "getFirestore sdk = None"
    and "\<not> list_ex nullish operations"
  shows "(commitError sdk (stagedWrites sdk operations) = None \<longrightarrow>
           (\<exists>results.
              getProp (batchOperations e sdk rate operations) ''results'' = JArr results
            \<and> length results = length operations
            \<and> (\<forall>i < length operations.
                  getProp (results ! i) ''success'' = JBool (cleanStage sdk i (operations ! i)))
            \<and> getProp (batchOperations e sdk rate operations) ''success''
                = JBool (failed results = [])
            \<and> getProp (getProp (batchOperations e sdk rate operations) ''summary'') ''successful''
                = JNum (int (length (successful results)))
            \<and> getProp (getProp (batchOperations e sdk rate operations) ''summary'') ''failed''
                = JNum (int (length (failed results)))
            \<and> length (successful results) = length (cleanOps sdk operations)
            \<and> length (failed results) = length operations - length (cleanOps sdk operations))
          \<and> getProp (batchOperations e sdk rate operations) ''success''
              = JBool (length (cleanOps sdk operations) = length operations)
          \<and> getProp (getProp (batchOperations e sdk rate operations) ''summary'') ''successful''
              = JNum (int (length (cleanOps sdk operations)))
          \<and> getProp (getProp (batchOperations e sdk rate operations) ''summary'') ''failed''
              = JNum (int (length operations - length (cleanOps sdk operations))))
       \<and> (\<forall>err. commitError sdk (stagedWrites sdk operations) = Some err \<longrightarrow>
             batchOperations e sdk rate operations
               = FirebaseResponse_error e err ''batchOperations''
                   [(''operationsCount'', JNum (int (length operations)))] (Some (elapsed e))
             \<and> getProp (batchOperations e sdk rate operations) ''success'' = JBool False
             \<and> getProp (batchOperations e sdk rate operations) ''summary'' = JUndefined)"
proof -
  let ?results = "map snd (stageAll sdk operations)"
  let ?n = "length (cleanOps sdk operations)"
  have b: "batchOperations e sdk rate operations =
             (case commitError sdk (stagedWrites sdk operations) of
                Some error \<Rightarrow> FirebaseResponse_error e error ''batchOperations''
                                [(''operationsCount'', JNum (int (length operations)))] (Some (elapsed e))
              | None \<Rightarrow> FirebaseResponse_batch e rate ?results ''batch operations'')"
    using assms by (simp add: batchOperations_def Let_def stageAll_writes split: option.splits)
  have len: "length ?results = length operations"
    by (simp add: stageAll_def)
  have each: "\<forall>i < length operations.
                getProp (?results ! i) ''success'' = JBool (cleanStage sdk i (operations ! i))"
    by (simp add: stageAll_nth stageOp_success)
  have s: "length (successful ?results) = ?n"
    by (rule stageAll_successful)
  have f: "length (failed ?results) = length operations - ?n"
    using successful_failed [of ?results] s len by simp
  have z: "(failed ?results = []) = (?n = length operations)"
    using f cleanOps_le [of sdk operations] by auto
  show ?thesis
  proof (intro conjI impI allI)
    assume "commitError sdk (stagedWrites sdk operations) = None"
    then have bb: "batchOperations e sdk rate operations
                    = FirebaseResponse_batch e rate ?results ''batch operations''"
      by (simp add: b)
    show "\<exists>results.
              getProp (batchOperations e sdk rate operations) ''results'' = JArr results
            \<and> length results = length operations
            \<and> (\<forall>i < length operations.
                  getProp (results ! i) ''success'' = JBool (cleanStage sdk i (operations ! i)))
            \<and> getProp (batchOperations e sdk rate operations) ''success''
                = JBool (failed results = [])
            \<and> getProp (getProp (batchOperations e sdk rate operations) ''summary'') ''successful''
                = JNum (int (length (successful results)))
            \<and> getProp (getProp (batchOperations e sdk rate operations) ''summary'') ''failed''
                = JNum (int (length (failed results)))
            \<and> length (successful results) = length (cleanOps sdk operations)
            \<and> length (failed results) = length operations - length (cleanOps sdk operations)"
      apply (rule exI [of _ ?results])
      apply (simp only: bb batch_fields)
      apply (intro conjI refl len each s f)
      done
    show "getProp (batchOperations e sdk rate operations) ''success'' = JBool (?n = length operations)"
      by (simp only: bb batch_fields z)
    show "getProp (getProp (batchOperations e sdk rate operations) ''summary'') ''successful''
              = JNum (int ?n)"
      by (simp only: bb batch_fields s)
    show "getProp (getProp (batchOperations e sdk rate operations) ''summary'') ''failed''
              = JNum (int (length operations - ?n))"
      by (simp only: bb batch_fields f)
  next
    fix err
    assume c: "commitError sdk (stagedWrites sdk operations) = Some err"
    then show r: "batchOperations e sdk rate operations
               = FirebaseResponse_error e err ''batchOperations''
                   [(''operationsCount'', JNum (int (length operations)))] (Some (elapsed e))"
      by (simp add: b)
    show "getProp (batchOperations e sdk rate operations) ''success'' = JBool False"
      by (simp add: r FirebaseResponse_error_def)
    show "getProp (batchOperations e sdk rate operations) ''summary'' = JUndefined"
      by (simp add: r FirebaseResponse_error_def)
  qed
qed

lemma cleanStage_examples:
  "cleanStage fsSdk0 i (opCreate n)"
  "cleanStage fsSdk0 i (opDelete n)"
  "cleanStage fsSdkRefusesDelete i (opCreate n)"
  "\<not> cleanStage fsSdkRefusesDelete i (opDelete n)"
  "cleanStage fsSdkRejectsCommit i (opCreate n)"
  "cleanStage fsSdkRejectsCommit i (opDelete n)"
  by (simp_all add: cleanStage_def opCreate_def opDelete_def fsSdk0_def fsSdkRefusesDelete_def
        fsSdkRejectsCommit_def)

lemma nullish_examples: "\<not> list_ex nullish [opCreate ''a'', opCreate ''b'', opDelete ''missing'']"
  by (simp add: nullish_def opCreate_def opDelete_def)

theorem batchOperations_counts_witness:
  "getFirestore fsSdk0 = None
   \<and> \<not> list_ex nullish [opCreate ''a'', opCreate ''b'', opDelete ''missing'']
   \<and> db0 (JStr ''notes'', JStr ''missing'') = None
   \<and> length (cleanOps fsSdk0 [opCreate ''a'', opCreate ''b'', opDelete ''missing'']) = 3
   \<and> getProp (batchOperations env0 fsSdk0 rate0 [opCreate ''a'', opCreate ''b'', opDelete ''missing''])
         ''success'' = JBool True
   \<and> getProp (getProp (batchOperations env0 fsSdk0 rate0
                          [opCreate ''a'', opCreate ''b'', opDelete ''missing'']) ''summary'') ''successful''
       = JNum 3
   \<and> getProp (getProp (batchOperations env0 fsSdk0 rate0
                          [opCreate ''a'', opCreate ''b'', opDelete ''missing'']) ''summary'') ''failed''
       = JNum 0
   \<and> length (cleanOps fsSdkRefusesDelete [opCreate ''a'', opCreate ''b'', opDelete ''missing'']) = 2
   \<and> getProp (batchOperations env0 fsSdkRefusesDelete rate0
                 [opCreate ''a'', opCreate ''b'', opDelete ''missing'']) ''success'' = JBool False
   \<and> getProp (getProp (batchOperations env0 fsSdkRefusesDelete rate0
                          [opCreate ''a'', opCreate ''b'', opDelete ''missing'']) ''summary'') ''successful''
       = JNum 2
   \<and> getProp (getProp (batchOperations env0 fsSdkRefusesDelete rate0
                          [opCreate ''a'', opCreate ''b'', opDelete ''missing'']) ''summary'') ''failed''
       = JNum 1
   \<and> batchOperations env0 fsSdkRejectsCommit rate0 [opCreate ''a'', opCreate ''b'', opDelete ''missing'']
       = FirebaseResponse_error env0 commitFailure ''batchOperations''
           [(''operationsCount'', JNum 3)] (Some (elapsed env0))"
proof -
  let ?ops = "[opCreate ''a'', opCreate ''b'', opDelete ''missing'']"
  have g0: "getFirestore fsSdk0 = None" by (simp add: fsSdk0_def)
  have g1: "getFirestore fsSdkRefusesDelete = None" by (simp add: fsSdkRefusesDelete_def)
  have g2: "getFirestore fsSdkRejectsCommit = None" by (simp add: fsSdkRejectsCommit_def)
  have m: "db0 (JStr ''notes'', JStr ''missing'') = None" by (simp add: db0_def)
  have c0: "commitError fsSdk0 (stagedWrites fsSdk0 ?ops) = None" by (simp add: fsSdk0_def)
  have c1: "commitError fsSdkRefusesDelete (stagedWrites fsSdkRefusesDelete ?ops) = None"
    by (simp add: fsSdkRefusesDelete_def)
  have c2: "commitError fsSdkRejectsCommit (stagedWrites fsSdkRejectsCommit ?ops) = Some commitFailure"
    by (simp add: fsSdkRejectsCommit_def)
  have n0: "length (cleanOps fsSdk0 ?ops) = 3"
    by (simp add: cleanOps_def cleanStage_examples)
  have n1: "length (cleanOps fsSdkRefusesDelete ?ops) = 2"
    by (simp add: cleanOps_def cleanStage_examples)
  note T0 = batchOperations_counts [OF g0 nullish_examples, of env0 rate0,
              THEN conjunct1, rule_format, OF c0, THEN conjunct2]
  note T1 = batchOperations_counts [OF g1 nullish_examples, of env0 rate0,
              THEN conjunct1, rule_format, OF c1, THEN conjunct2]
  note T2 = batchOperations_counts [OF g2 nullish_examples, of env0 rate0,
              THEN conjunct2, rule_format, OF c2, THEN conjunct1]
  have a0: "getProp (batchOperations env0 fsSdk0 rate0 ?ops) ''success'' = JBool True"
    using T0 [THEN conjunct1] by (simp add: n0)
  have a1: "getProp (getProp (batchOperations env0 fsSdk0 rate0 ?ops) ''summary'') ''successful'' = JNum 3"
    using T0 [THEN conjunct2, THEN conjunct1] by (simp add: n0)
  have a2: "getProp (getProp (batchOperations env0 fsSdk0 rate0 ?ops) ''summary'') ''failed'' = JNum 0"
    using T0 [THEN conjunct2, THEN conjunct2] by (simp add: n0)
  have b0: "getProp (batchOperations env0 fsSdkRefusesDelete rate0 ?ops) ''success'' = JBool False"
    using T1 [THEN conjunct1] by (simp add: n1)
  have b1: "getProp (getProp (batchOperations env0 fsSdkRefusesDelete rate0 ?ops) ''summary'') ''successful'' = JNum 2"
    using T1 [THEN conjunct2, THEN conjunct1] by (simp add: n1)
  have b2: "getProp (getProp (batchOperations env0 fsSdkRefusesDelete rate0 ?ops) ''summary'') ''failed'' = JNum 1"
    using T1 [THEN conjunct2, THEN conjunct2] by (simp add: n1)
  have r: "batchOperations env0 fsSdkRejectsCommit rate0 ?ops
       = FirebaseResponse_error env0 commitFailure ''batchOperations''
           [(''operationsCount'', JNum 3)] (Some (elapsed env0))"
    using T2 by simp
  show ?thesis
    by (intro conjI g0 nullish_examples m n0 a0 a1 a2 n1 b0 b1 b2 r)
qed

text \<open>
  C5 as it was claimed, refuted: in the batch of two valid creates and one delete of an id
  that does not exist, every operation stages its write, so no operation failed; the
  store rejects the commit, and the envelope has \<open>success\<close> false and no summary to hold
  the counts.
\<close>

theorem batchOperations_commit_counterexample:
  "length (cleanOps fsSdkRejectsCommit [opCreate ''a'', opCreate ''b'', opDelete ''missing'']) = 3
   \<and> db0 (JStr ''notes'', JStr ''missing'') = None
   \<and> getProp (batchOperations env0 fsSdkRejectsCommit rate0
                 [opCreate ''a'', opCreate ''b'', opDelete ''missing'']) ''success'' = JBool False
   \<and> getProp (batchOperations env0 fsSdkRejectsCommit rate0
                 [opCreate ''a'', opCreate ''b'', opDelete ''missing'']) ''summary'' = JUndefined
   \<and> getProp (getProp (batchOperations env0 fsSdkRejectsCommit rate0
                          [opCreate ''a'', opCreate ''b'', opDelete ''missing'']) ''summary'') ''successful''
       = JUndefined"
proof -
  let ?ops = "[opCreate ''a'', opCreate ''b'', opDelete ''missing'']"
  have n: "length (cleanOps fsSdkRejectsCommit ?ops) = 3"
    by (simp add: cleanOps_def cleanStage_examples)
  have m: "db0 (JStr ''notes'', JStr ''missing'') = None" by (simp add: db0_def)
  have r: "batchOperations env0 fsSdkRejectsCommit rate0 ?ops
       = FirebaseResponse_error env0 commitFailure ''batchOperations''
           [(''operationsCount'', JNum 3)] (Some (elapsed env0))"
    by (simp add: batchOperations_def Let_def fsSdkRejectsCommit_def nullish_def opCreate_def opDelete_def)
  have 1: "getProp (batchOperations env0 fsSdkRejectsCommit rate0 ?ops) ''success'' = JBool False"
    by (simp add: r FirebaseResponse_error_def)
  have 2: "getProp (batchOperations env0 fsSdkRejectsCommit rate0 ?ops) ''summary'' = JUndefined"
    by (simp add: r FirebaseResponse_error_def)
  have 3: "getProp (getProp (batchOperations env0 fsSdkRejectsCommit rate0 ?ops) ''summary'') ''successful''
       = JUndefined"
    by (simp add: 2)
  show ?thesis
    by (intro conjI n m 1 2 3)
qed

section \<open>Rate limiter: one window\<close>















section \<open>Sanitizer: what survives\<close>

lemma set_removeAllCI: "set (removeAllCI p s) \<subseteq> set s"
proof (induction p s rule: removeAllCI.induct)
  case (1 p)
  then show ?case by simp
next
  case (2 p c cs)
  show ?case
  proof (cases "p \<noteq> [] \<and> startsWithCI p (c # cs)")
    case True
    then have "set (removeAllCI p (c # cs)) = set (removeAllCI p (drop (length p) (c # cs)))"
      by simp
    also have "\<dots> \<subseteq> set (drop (length p) (c # cs))" using 2(1) True by simp
    also have "\<dots> \<subseteq> set (c # cs)" by (rule set_drop_subset)
    finally show ?thesis .
  next
    case False
    then have "set (removeAllCI p (c # cs)) = insert c (set (removeAllCI p cs))" by auto
    then show ?thesis using 2(2) False by auto
  qed
qed

lemma set_trim: "set (trim s) \<subseteq> set s"
proof -
  have "set (trim s) = set (dropWhile isWhiteSpace (rev (dropWhile isWhiteSpace s)))"
    by (simp add: trim_def)
  also have "\<dots> \<subseteq> set (rev (dropWhile isWhiteSpace s))"
    by (auto dest: set_dropWhileD)
  also have "\<dots> \<subseteq> set s"
    by (auto dest: set_dropWhileD)
  finally show ?thesis .
qed

lemma set_sanitizeString: "set (sanitizeString s) \<subseteq> set s - {CHR ''<'', CHR ''>''}"
proof -
  have "set (sanitizeString s) \<subseteq> set (removeAngles s)"
    unfolding sanitizeString_def
    using set_trim set_removeAllCI by (meson subset_trans)
  then show ?thesis by (auto simp: removeAngles_def)
qed

lemma includesStr_set: "includesStr p s \<Longrightarrow> set p \<subseteq> set s"
proof (induction s)
  case Nil
  then show ?case by simp
next
  case (Cons c cs)
  show ?case
  proof (cases "startsWith p (c # cs)")
    case True
    then have "p = take (length p) (c # cs)" by (simp add: startsWith_def)
    then have "set p \<subseteq> set (c # cs)" by (metis set_take_subset)
    then show ?thesis .
  next
    case False
    then show ?thesis using Cons by auto
  qed
qed

text \<open>
  The part of C2 that holds: no sanitized string contains an angle bracket, hence none
  contains \<open><script>\<close>.
\<close>

lemma sanitizeString_no_script_tag: "\<not> includesStr ''<script>'' (sanitizeString s)"
proof
  assume "includesStr ''<script>'' (sanitizeString s)"
  then have "set ''<script>'' \<subseteq> set (sanitizeString s)" by (rule includesStr_set)
  then have "CHR ''<'' \<in> set (sanitizeString s)" by simp
  then show False using set_sanitizeString [of s] by auto
qed

text \<open>
  C2 fails on the code: each replacement is one pass over the string, so removing an inner
  \<open>javascript:\<close> can join the text around it into a new one. The input below starts with
  \<open>javascript:\<close>; the sanitized string, and the body the sanitizer middleware forwards,
  still contain \<open>javascript:\<close>.
\<close>

theorem sanitizer_keeps_javascript:
  "startsWith ''javascript:'' ''javascript:javajavascript:script:alert(1)''
   \<and> sanitizeString ''javascript:javajavascript:script:alert(1)'' = ''javascript:alert(1)''
   \<and> includesStr ''javascript:'' (sanitizeString ''javascript:javajavascript:script:alert(1)'')
   \<and> sanitizeFirebaseData reqLink
       = ([(''headers'', JObj []), (''body'', JObj [(''url'', JStr ''javascript:alert(1)'')])], Next)"
proof -
  have 1: "sanitizeString ''javascript:javajavascript:script:alert(1)'' = ''javascript:alert(1)''"
    by (simp add: sanitizeString_def removeAngles_def startsWithCI_def lowerChar_def trim_def
          isWhiteSpace_def)
  have 2: "includesStr ''javascript:'' ''javascript:alert(1)''"
    by (simp add: startsWith_def)
  have 3: "startsWith ''javascript:'' ''javascript:javajavascript:script:alert(1)''"
    by (simp add: startsWith_def)
  have 4: "sanitizeFirebaseData reqLink
       = ([(''headers'', JObj []), (''body'', JObj [(''url'', JStr ''javascript:alert(1)'')])], Next)"
    by (simp add: sanitizeFirebaseData_def reqLink_def reqGet_def reqSet_def Let_def 1
          assignAll_def sanitizeKey_def)
  show ?thesis using 1 2 3 4 by simp
qed

section \<open>Role gate: the roles claim\<close>

lemma getUserByUid_found:
  assumes "getAuth sdk = None" and "sdkGetUser sdk uid = Inr userRecord"
    and "\<not> nullish (getProp (JObj userRecord) ''metadata'')"
  shows "getUserByUid e sdk uid
           = FirebaseResponse_success e
               (userRecordData userRecord (getProp (JObj userRecord) ''metadata''))
               ''User retrieved successfully'' (Some (elapsed e)) []"
  using assms by (simp add: getUserByUid_def Let_def)

lemma fetched_customClaims:
  "getProp (getProp (FirebaseResponse_success e (userRecordData userRecord metadata) message timing [])
              ''data'') ''customClaims''
     = jsor (getProp (JObj userRecord) ''customClaims'') (JObj [])"
  by (simp add: FirebaseResponse_success_def userRecordData_def Let_def)

lemma fetched_success:
  "truthy (getProp (FirebaseResponse_success e (userRecordData userRecord metadata) message timing []) ''success'')
   \<and> \<not> nullish (getProp (FirebaseResponse_success e (userRecordData userRecord metadata) message timing []) ''data'')"
  by (simp add: FirebaseResponse_success_def userRecordData_def Let_def nullish_def)

text \<open>
  What the role gate does for a verified identity whose user record was fetched, when the
  \<open>roles\<close> claim is absent (or otherwise falsy) or is a list: it answers 403 with code
  \<open>INSUFFICIENT_ROLE\<close> unless the required role is the \<open>role\<close> claim or a member of the
  list, and then it goes on, recording both claims on the request.
\<close>

lemma requireRole_list_claims:
  assumes "truthy (reqGet req ''user'')"
    and "getAuth sdk = None"
    and "sdkGetUser sdk (getProp (reqGet req ''user'') ''uid'') = Inr userRecord"
    and "\<not> nullish (getProp (JObj userRecord) ''metadata'')"
    and "customClaims = jsor (getProp (JObj userRecord) ''customClaims'') (JObj [])"
    and "jsor (getOpt customClaims ''roles'') (JArr []) = JArr roles"
  shows "requireRole e sdk requiredRole req =
           (if JStr requiredRole \<in> set roles \<or> getOpt customClaims ''role'' = JStr requiredRole
            then (reqSet (reqSet req ''userRoles'' (JArr roles)) ''userRole'' (getOpt customClaims ''role''), Next)
            else (req, Respond 403
                    (FirebaseResponse_forbidden e
                       (''Role '' @ [CHR 39] @ requiredRole @ [CHR 39] @ '' required'')
                       ''INSUFFICIENT_ROLE'')))"
proof -
  note u = getUserByUid_found [OF assms(2,3,4), of e]
  show ?thesis
    unfolding requireRole_def Let_def u fetched_customClaims assms(5) [symmetric] assms(6)
    using assms(1) fetched_success [of e userRecord "getProp (JObj userRecord) ''metadata''"
        "''User retrieved successfully''" "Some (elapsed e)"]
    by (simp add: jsIncludes_def)
qed

text \<open>
  C7 fails on the code when the \<open>roles\<close> claim is not a list. A string is searched for
  the required role as a substring: the identity with claims
  \<open>{ roles: "administrator" }\<close> has neither the role claim \<open>admin\<close> nor a list of roles
  holding it, and the gate for \<open>admin\<close> lets it through. Any other truthy value has
  no \<open>includes\<close>: with \<open>{ role: "admin", roles: 5 }\<close> the role is granted and the gate
  answers 500.
\<close>

theorem requireRole_string_roles:
  "truthy (reqGet reqUser ''user'')
   \<and> getUserByUid env0 authSdkStringRoles (JStr ''u1'')
       = FirebaseResponse_success env0
           (userRecordData [(''uid'', JStr ''u1''), (''metadata'', JObj []),
                            (''customClaims'', JObj [(''roles'', JStr ''administrator'')])] (JObj []))
           ''User retrieved successfully'' (Some 5) []
   \<and> requireRole env0 authSdkStringRoles ''admin'' reqUser
       = (reqSet (reqSet reqUser ''userRoles'' (JStr ''administrator'')) ''userRole'' JUndefined, Next)
   \<and> requireRole env0 authSdkNumberRoles ''admin'' reqUser
       = (reqUser, Respond 500
            (FirebaseResponse_error env0 (typeError ''userRoles.includes is not a function'')
               ''role verification'' [] None))"
proof -
  have t: "truthy (reqGet reqUser ''user'')" by (simp add: reqUser_def reqGet_def)
  have uid: "getProp (reqGet reqUser ''user'') ''uid'' = JStr ''u1''"
    by (simp add: reqUser_def reqGet_def)
  have u1: "getUserByUid env0 authSdkStringRoles (JStr ''u1'')
       = FirebaseResponse_success env0
           (userRecordData [(''uid'', JStr ''u1''), (''metadata'', JObj []),
                            (''customClaims'', JObj [(''roles'', JStr ''administrator'')])] (JObj []))
           ''User retrieved successfully'' (Some 5) []"
    by (simp add: getUserByUid_def authSdkStringRoles_def Let_def nullish_def env0_def)
  have u2: "getUserByUid env0 authSdkNumberRoles (JStr ''u1'')
       = FirebaseResponse_success env0
           (userRecordData [(''uid'', JStr ''u1''), (''metadata'', JObj []),
                            (''customClaims'', JObj [(''role'', JStr ''admin''), (''roles'', JNum 5)])] (JObj []))
           ''User retrieved successfully'' (Some 5) []"
    by (simp add: getUserByUid_def authSdkNumberRoles_def Let_def nullish_def env0_def)
  have inc: "includesStr ''admin'' ''administrator''" by (simp add: startsWith_def)
  have r1: "requireRole env0 authSdkStringRoles ''admin'' reqUser
       = (reqSet (reqSet reqUser ''userRoles'' (JStr ''administrator'')) ''userRole'' JUndefined, Next)"
    unfolding requireRole_def Let_def uid u1 fetched_customClaims
    using t fetched_success [of env0 _ "JObj []" "''User retrieved successfully''" "Some 5"] inc
    by (simp add: jsIncludes_def jsor_def getOpt_def nullish_def)
  have r2: "requireRole env0 authSdkNumberRoles ''admin'' reqUser
       = (reqUser, Respond 500
            (FirebaseResponse_error env0 (typeError ''userRoles.includes is not a function'')
               ''role verification'' [] None))"
    unfolding requireRole_def Let_def uid u2 fetched_customClaims
    using t fetched_success [of env0 _ "JObj []" "''User retrieved successfully''" "Some 5"]
    by (simp add: jsIncludes_def jsor_def getOpt_def nullish_def requireRole_catch_def)
  show ?thesis
    by (intro conjI t u1 r1 r2)
qed

end
